theory Spec2Isabelle
  imports Main "HOL-Library.Sublist" "HOL-Library.Word"
begin

unbundle bit_operations_syntax

section \<open>mcxToProfile.py: property lists, profile documents and domain inference\<close>

text \<open>
  A shallow embedding of \<^verbatim>\<open>src/mcxToProfile.py\<close>. Python strings are \<open>string\<close>,
  Python dictionaries whose keys are data (a preference tree, a Payload Content Body) are
  association lists in iteration order, dictionaries with a fixed set of literal keys
  (\<^verbatim>\<open>self.data\<close>, \<^verbatim>\<open>payload_dict\<close> of \<^verbatim>\<open>_addPayload\<close>, \<^verbatim>\<open>domain_info\<close>) are records
  whose fields carry the keys' names. What the program reads from its environment (the
  random bytes behind \<^verbatim>\<open>makeNewUUID()\<close>, the clock, whether the import of line 14
  succeeded, the file system, the plist decoder, the revision of the tool's source tree) is
  an explicit argument of the function that reads it. An exception that ends a function is
  a result \<open>Inl\<close> of it.
\<close>

subsection \<open>Property-list values\<close>

text \<open>
  The tree a plist codec decodes to. \<open>PDate\<close> carries an \<^verbatim>\<open>NSDate\<close> as an opaque
  integer reading of the clock. A dictionary \<open>PDict\<close> lists its items in the order
  \<^verbatim>\<open>keys()\<close> enumerates them.
\<close>

datatype plist =
    PString string
  | PInteger int
  | PBool bool
  | PDate int
  | PArray "plist list"
  | PDict "(string \<times> plist) list"

type_synonym pydict = "(string \<times> plist) list"

text \<open>\<^verbatim>\<open>d[k] = v\<close>: replaces the value of an existing key, otherwise adds the item.\<close>

fun dict_set :: "string \<Rightarrow> plist \<Rightarrow> pydict \<Rightarrow> pydict" where
  "dict_set k v [] = [(k, v)]"
| "dict_set k v ((k', v') # d) = (if k' = k then (k, v) # d else (k', v') # dict_set k v d)"

text \<open>\<^verbatim>\<open>d.keys()\<close> and the lookup of a key (\<open>None\<close> where Python raises \<^verbatim>\<open>KeyError\<close>).\<close>

definition keys :: "pydict \<Rightarrow> string list" where
  "keys d = map fst d"

definition dict_get :: "pydict \<Rightarrow> string \<Rightarrow> plist option" where
  "dict_get d k = map_of d k"

subsection \<open>Strings\<close>

text \<open>
  \<^verbatim>\<open>s.split(sep)\<close> for a non-empty separator: the pieces between the non-overlapping
  occurrences of \<open>sep\<close>, found from the left. Every call of the program passes a literal,
  non-empty separator (Python raises \<^verbatim>\<open>ValueError\<close> on an empty one).
\<close>

function py_split :: "string \<Rightarrow> string \<Rightarrow> string list" where
  "py_split sep [] = [[]]"
| "py_split sep (c # cs) =
     (if sep \<noteq> [] \<and> prefix sep (c # cs)
      then [] # py_split sep (drop (length sep) (c # cs))
      else (case py_split sep cs of
              [] \<Rightarrow> [[c]]
            | w # ws \<Rightarrow> (c # w) # ws))"
  by pat_completeness auto
termination
  by (relation "measure (\<lambda>(sep, s). length s)") auto

text \<open>\<^verbatim>\<open>sep.join(xs)\<close>.\<close>

fun py_join :: "string \<Rightarrow> string list \<Rightarrow> string" where
  "py_join sep [] = []"
| "py_join sep [x] = x"
| "py_join sep (x # y # ys) = x @ sep @ py_join sep (y # ys)"

text \<open>\<^verbatim>\<open>os.path.basename\<close> of \<^verbatim>\<open>posixpath\<close>: what follows the last slash.\<close>

definition basename :: "string \<Rightarrow> string" where
  "basename p = rev (takeWhile (\<lambda>c. c \<noteq> CHR ''/'') (rev p))"

subsection \<open>The ByHost pattern\<close>

text \<open>
  \<^verbatim>\<open>byhost_pattern\<close> is
  \<^verbatim>\<open>\.ByHost$|\.[0-9a-fA-F]{12}$|\.[0-9a-fA-F]{8}-([0-9a-fA-F]{4}-){3}[0-9a-fA-F]{12}$\<close>.
  Each alternative matches a text of fixed length (7, 13 and 37 characters) and then
  \<^verbatim>\<open>$\<close>, which in Python, without \<^verbatim>\<open>re.MULTILINE\<close>, matches at the end of the string
  and also just before a newline that is the string's last character.
\<close>

definition is_hex :: "char \<Rightarrow> bool" where
  "is_hex c = (c \<in> set ''0123456789abcdefABCDEF'')"

definition hex_run :: "nat \<Rightarrow> string \<Rightarrow> bool" where
  "hex_run n t = (length t = n \<and> list_all is_hex t)"

text \<open>\<^verbatim>\<open>\.ByHost\<close>\<close>

definition tok_byhost :: "string \<Rightarrow> bool" where
  "tok_byhost t = (t = ''.ByHost'')"

text \<open>\<^verbatim>\<open>\.[0-9a-fA-F]{12}\<close>\<close>

definition tok_mac :: "string \<Rightarrow> bool" where
  "tok_mac t = (take 1 t = ''.'' \<and> hex_run 12 (drop 1 t))"

text \<open>\<^verbatim>\<open>[0-9a-fA-F]{4}-\<close>\<close>

definition hex4_dash :: "string \<Rightarrow> bool" where
  "hex4_dash t = (hex_run 4 (take 4 t) \<and> drop 4 t = ''-'')"

text \<open>\<^verbatim>\<open>\.[0-9a-fA-F]{8}-([0-9a-fA-F]{4}-){3}[0-9a-fA-F]{12}\<close>\<close>

definition tok_uuid :: "string \<Rightarrow> bool" where
  "tok_uuid t =
     (take 1 t = ''.'' \<and> hex_run 8 (take 8 (drop 1 t)) \<and> take 1 (drop 9 t) = ''-'' \<and>
      hex4_dash (take 5 (drop 10 t)) \<and> hex4_dash (take 5 (drop 15 t)) \<and>
      hex4_dash (take 5 (drop 20 t)) \<and> hex_run 12 (drop 25 t))"

text \<open>The last \<open>n\<close> characters of \<open>s\<close>, when it has that many.\<close>

definition ends_with_tok :: "nat \<Rightarrow> (string \<Rightarrow> bool) \<Rightarrow> string \<Rightarrow> bool" where
  "ends_with_tok n tok s = (n \<le> length s \<and> tok (drop (length s - n) s))"

text \<open>A text of \<open>n\<close> characters matching \<open>tok\<close>, followed by \<^verbatim>\<open>$\<close>.\<close>

definition tok_dollar :: "nat \<Rightarrow> (string \<Rightarrow> bool) \<Rightarrow> string \<Rightarrow> bool" where
  "tok_dollar n tok s =
     (ends_with_tok n tok s \<or>
      (s \<noteq> [] \<and> last s = CHR 0x0A \<and> ends_with_tok n tok (butlast s)))"

text \<open>\<^verbatim>\<open>re.search(byhost_pattern, s)\<close> finds a match.\<close>

definition byhost_search :: "string \<Rightarrow> bool" where
  "byhost_search s =
     (tok_dollar 7 tok_byhost s \<or> tok_dollar 13 tok_mac s \<or> tok_dollar 37 tok_uuid s)"

subsection \<open>getDomainFromPlist\<close>

record domain_info =
  is_byhost :: bool
  name :: string

text \<open>
  \<^verbatim>\<open>plist_file_name = os.path.basename(plist_path_or_name).split('.plist')[0]\<close>: the
  base name up to the first occurrence of \<^verbatim>\<open>.plist\<close>. A split is never empty.
\<close>

definition plist_file_name :: "string \<Rightarrow> string" where
  "plist_file_name plist_path_or_name =
     (case py_split ''.plist'' (basename plist_path_or_name) of
        [] \<Rightarrow> []
      | w # ws \<Rightarrow> w)"

definition getDomainFromPlist :: "string \<Rightarrow> domain_info" where
  "getDomainFromPlist plist_path_or_name =
     (let pfn = plist_file_name plist_path_or_name in
      if byhost_search pfn
      then \<lparr>is_byhost = True, name = py_join ''.'' (butlast (py_split ''.'' pfn))\<rparr>
      else \<lparr>is_byhost = False, name = pfn\<rparr>)"

subsection \<open>Errors\<close>

text \<open>
  \<^verbatim>\<open>errorAndExit(errmsg)\<close> prints the message and leaves the program; any other
  exception that nothing catches ends it as well.
\<close>

datatype error =
    ErrorAndExit string
  | Uncaught string

subsection \<open>makeNewUUID\<close>

text \<open>
  Modelled from the spec: \<^verbatim>\<open>makeNewUUID\<close> (lines 133 and 134) returns
  \<^verbatim>\<open>str(uuid4())\<close>, and \<^verbatim>\<open>uuid4\<close> belongs to Python's \<^verbatim>\<open>uuid\<close> module, which is
  not part of the repository; the specification calls its result a fresh random UUID
  (version 4, standard textual form). The definitions follow the module: \<^verbatim>\<open>uuid4()\<close> is
  \<^verbatim>\<open>UUID(bytes=os.urandom(16), version=4)\<close>, whose constructor reads the 16 bytes as a
  128-bit integer and then sets the variant and the version with
  \<^verbatim>\<open>int &= ~(0xc000 << 48); int |= 0x8000 << 48; int &= ~(0xf000 << 64); int |= version << 76\<close>.
  \<open>random\<close> is the integer that the bytes of \<^verbatim>\<open>os.urandom(16)\<close> spell.
\<close>

definition uuid4 :: "128 word \<Rightarrow> 128 word" where
  "uuid4 random =
     (let i = random AND NOT (push_bit 48 0xc000);
          i = i OR push_bit 48 0x8000;
          i = i AND NOT (push_bit 64 0xf000);
          i = i OR push_bit 76 4
      in i)"

text \<open>
  \<^verbatim>\<open>UUID.__str__\<close>: \<^verbatim>\<open>hex = '%032x' % self.int\<close>, the 32 lower-case hexadecimal digits
  of the integer from the most significant one, and then
  \<^verbatim>\<open>'%s-%s-%s-%s-%s' % (hex[:8], hex[8:12], hex[12:16], hex[16:20], hex[20:])\<close>.
\<close>

definition hex_digit :: "nat \<Rightarrow> char" where
  "hex_digit n = ''0123456789abcdef'' ! n"

definition hex32 :: "128 word \<Rightarrow> string" where
  "hex32 w = map (\<lambda>k. hex_digit (unat (take_bit 4 (drop_bit (4 * (31 - k)) w)))) [0..<32]"

definition uuid_str :: "128 word \<Rightarrow> string" where
  "uuid_str w =
     (let hex = hex32 w
      in take 8 hex @ ''-'' @ take 4 (drop 8 hex) @ ''-'' @ take 4 (drop 12 hex) @ ''-'' @
         take 4 (drop 16 hex) @ ''-'' @ drop 20 hex)"

definition makeNewUUID :: "128 word \<Rightarrow> string" where
  "makeNewUUID random = uuid_str (uuid4 random)"

subsection \<open>The profile document\<close>

text \<open>
  \<^verbatim>\<open>payload_dict\<close> of \<^verbatim>\<open>_addPayload\<close>: one element of the document's
  \<^verbatim>\<open>PayloadContent\<close> array.
\<close>

record payload =
  PayloadVersion :: int
  PayloadUUID :: string
  PayloadEnabled :: bool
  PayloadType :: string
  PayloadIdentifier :: string
  PayloadContent :: pydict

text \<open>\<^verbatim>\<open>self.data\<close>: the dictionary that \<^verbatim>\<open>writePlist\<close> serializes.\<close>

record profile =
  PayloadVersion :: int
  PayloadOrganization :: string
  PayloadUUID :: string
  PayloadRemovalDisallowed :: bool
  PayloadType :: string
  PayloadScope :: string
  PayloadDescription :: string
  PayloadDisplayName :: string
  PayloadIdentifier :: string
  PayloadContent :: "payload list"

text \<open>An instance of the class \<^verbatim>\<open>PayloadDict\<close>.\<close>

record PayloadDict =
  data :: profile
  gitrev :: "string option"

text \<open>
  Truth value of the argument \<^verbatim>\<open>uuid\<close> of \<^verbatim>\<open>__init__\<close>: \<open>None\<close> is its default
  \<^verbatim>\<open>False\<close>, \<open>Some s\<close> a string, which Python takes as true when it is not empty.
\<close>

definition uuid_given :: "string option \<Rightarrow> bool" where
  "uuid_given uuid = (case uuid of None \<Rightarrow> False | Some s \<Rightarrow> s \<noteq> [])"

text \<open>
  \<^verbatim>\<open>PayloadDict.__init__\<close>. \<open>new_uuid\<close> is what \<^verbatim>\<open>makeNewUUID()\<close> returns when it is
  called (\<open>makeNewUUID random\<close> for the random bytes of that call); \<open>git_rev\<close> is what lines 42 to 52 leave in \<^verbatim>\<open>self.gitrev\<close>: the stripped
  output of \<^verbatim>\<open>git rev-parse HEAD\<close> when the tool's directory holds \<^verbatim>\<open>.git\<close> and git
  exits with 0, and \<open>None\<close> otherwise.
\<close>

definition PayloadDict_init ::
  "string \<Rightarrow> string option \<Rightarrow> bool \<Rightarrow> string \<Rightarrow> string \<Rightarrow> string \<Rightarrow> string option \<Rightarrow> PayloadDict"
where
  "PayloadDict_init identifier uuid removal_allowed organization displayname new_uuid git_rev =
     \<lparr>data =
        \<lparr>profile.PayloadVersion = 1,
         PayloadOrganization = organization,
         PayloadUUID =
           (case uuid of
              None \<Rightarrow> new_uuid
            | Some s \<Rightarrow> if uuid_given uuid then s else new_uuid),
         PayloadRemovalDisallowed = (if removal_allowed then False else True),
         PayloadType = ''Configuration'',
         PayloadScope = ''System'',
         PayloadDescription = ''Included custom settings:'' @ [CHR 0x0A],
         PayloadDisplayName = displayname,
         PayloadIdentifier = identifier,
         PayloadContent = []\<rparr>,
      gitrev = git_rev\<rparr>"

text \<open>
  \<^verbatim>\<open>"%s.%s.alacarte.customsettings.%s" % ('MCXToProfile', self.data['PayloadUUID'],
  payload_dict['PayloadUUID'])\<close>
\<close>

definition payload_identifier :: "string \<Rightarrow> string \<Rightarrow> string" where
  "payload_identifier profile_uuid payload_uuid =
     ''MCXToProfile'' @ ''.'' @ profile_uuid @ ''.alacarte.customsettings.'' @ payload_uuid"

text \<open>
  \<^verbatim>\<open>PayloadDict._addPayload\<close>. \<open>new_uuid\<close> is what its call of \<^verbatim>\<open>makeNewUUID()\<close>
  returns. The pattern \<open>[d]\<close> is the test \<^verbatim>\<open>len(domains) == 1\<close>, and \<open>d\<close> is
  \<^verbatim>\<open>domains[0]\<close>.
\<close>

definition addPayload :: "PayloadDict \<Rightarrow> pydict \<Rightarrow> string \<Rightarrow> PayloadDict" where
  "addPayload self payload_content_dict new_uuid =
     (let domains = keys payload_content_dict;
          domain =
            (case domains of
               [d] \<Rightarrow> d
             | _ \<Rightarrow> ''multiple preference domains'');
          description =
            (case domains of
               [d] \<Rightarrow> PayloadDescription (data self) @ (domain @ [CHR 0x0A])
             | _ \<Rightarrow> PayloadDescription (data self) @ py_join [CHR 0x0A] domains);
          payload_dict =
            \<lparr>payload.PayloadVersion = 1,
             PayloadUUID = new_uuid,
             PayloadEnabled = True,
             PayloadType = ''com.apple.ManagedClient.preferences'',
             PayloadIdentifier = payload_identifier (profile.PayloadUUID (data self)) new_uuid,
             PayloadContent = payload_content_dict\<rparr>;
          displayname =
            (if PayloadDisplayName (data self) = []
             then ''MCXToProfile: '' @ domain
             else PayloadDisplayName (data self))
      in self\<lparr>data := (data self)
           \<lparr>PayloadDescription := description,
            PayloadDisplayName := displayname,
            profile.PayloadContent := profile.PayloadContent (data self) @ [payload_dict]\<rparr>\<rparr>)"

text \<open>
  The local \<^verbatim>\<open>payload_dict\<close> that \<^verbatim>\<open>addPayloadFromPlistContents\<close> builds in lines 95
  to 115; \<open>byhost\<close> is the argument \<^verbatim>\<open>is_byhost\<close>. The name \<^verbatim>\<open>NSDate\<close> of line 114
  comes from \<^verbatim>\<open>from FoundationPlist import *\<close> in line 14. When that import fails, lines
  15 and 16 import \<^verbatim>\<open>plistlib\<close> instead, which has no \<^verbatim>\<open>NSDate\<close>, and line 114 raises
  \<^verbatim>\<open>NameError\<close>. \<open>now\<close> is \<open>None\<close> when \<^verbatim>\<open>NSDate\<close> is unbound in this way, and
  \<open>Some t\<close> when \<^verbatim>\<open>NSDate.new()\<close> returns \<open>t\<close>. Line 114 is reached only when
  \<^verbatim>\<open>manage == 'Once'\<close>; before it the function has only built the local dictionary.
\<close>

definition plist_payload_dict ::
  "plist \<Rightarrow> string \<Rightarrow> string \<Rightarrow> bool \<Rightarrow> int option \<Rightarrow> error + pydict"
where
  "plist_payload_dict plist_dict domain manage byhost now =
     (let state = (if manage = ''Always'' then ''Forced'' else ''Set-Once'');
          domain = (if byhost then domain @ ''.ByHost'' else domain);
          settings = dict_set ''mcx_preference_settings'' plist_dict []
      in if manage = ''Once''
         then (case now of
                 None \<Rightarrow> Inl (Uncaught ''NameError'')
               | Some t \<Rightarrow>
                   Inr (dict_set domain
                     (PDict (dict_set state
                       (PArray [PDict (dict_set ''mcx_data_timestamp'' (PDate t) settings)]) []))
                     []))
         else Inr (dict_set domain (PDict (dict_set state (PArray [PDict settings]) [])) []))"

text \<open>
  \<^verbatim>\<open>PayloadDict.addPayloadFromPlistContents\<close>: \<^verbatim>\<open>self._addPayload(payload_dict)\<close> in
  line 117 is reached only when line 114 has not raised.
\<close>

definition addPayloadFromPlistContents ::
  "PayloadDict \<Rightarrow> plist \<Rightarrow> string \<Rightarrow> string \<Rightarrow> bool \<Rightarrow> int option \<Rightarrow> string \<Rightarrow>
   error + PayloadDict"
where
  "addPayloadFromPlistContents self plist_dict domain manage byhost now new_uuid =
     (case plist_payload_dict plist_dict domain manage byhost now of
        Inl e \<Rightarrow> Inl e
      | Inr payload_dict \<Rightarrow> Inr (addPayload self payload_dict new_uuid))"

text \<open>\<^verbatim>\<open>PayloadDict.addPayloadFromMCX\<close>\<close>

definition addPayloadFromMCX :: "PayloadDict \<Rightarrow> pydict \<Rightarrow> string \<Rightarrow> PayloadDict" where
  "addPayloadFromMCX self mcxdata new_uuid = addPayload self mcxdata new_uuid"

text \<open>
  \<^verbatim>\<open>PayloadDict.finalizeAndSave\<close>: the object afterwards, and the file that
  \<^verbatim>\<open>writePlist\<close> is given to write (its path and the document).
\<close>

definition finalizeAndSave :: "PayloadDict \<Rightarrow> string \<Rightarrow> PayloadDict \<times> (string \<times> profile)" where
  "finalizeAndSave self output_path =
     (let self' =
            (case gitrev self of
               None \<Rightarrow> self
             | Some rev' \<Rightarrow>
                 if rev' \<noteq> []
                 then self\<lparr>data := (data self)
                        \<lparr>PayloadDescription :=
                           PayloadDescription (data self) @
                           ([CHR 0x0A] @ ''Git revision: '' @ take 10 rev')\<rparr>\<rparr>
                 else self)
      in (self', (output_path, data self')))"

subsection \<open>Calls of the methods, in sequence\<close>

text \<open>
  The calls a user of the class makes on one object after creating it, each with what
  its reads of the environment return. A call that raises leaves the object as it was:
  \<^verbatim>\<open>addPayloadFromPlistContents\<close> has touched only its local dictionary when line 114
  raises, and has not called \<^verbatim>\<open>makeNewUUID()\<close>.
\<close>

datatype call =
    AddFromPlistContents plist string string bool "int option" string
  | AddFromMCX pydict string
  | FinalizeAndSave string

fun apply_call :: "PayloadDict \<Rightarrow> call \<Rightarrow> PayloadDict" where
  "apply_call self (AddFromPlistContents plist_dict domain manage byhost now new_uuid) =
     (case addPayloadFromPlistContents self plist_dict domain manage byhost now new_uuid of
        Inl e \<Rightarrow> self
      | Inr self' \<Rightarrow> self')"
| "apply_call self (AddFromMCX mcxdata new_uuid) = addPayloadFromMCX self mcxdata new_uuid"
| "apply_call self (FinalizeAndSave output_path) = fst (finalizeAndSave self output_path)"

definition apply_calls :: "PayloadDict \<Rightarrow> call list \<Rightarrow> PayloadDict" where
  "apply_calls self cs = foldl apply_call self cs"

text \<open>The values \<^verbatim>\<open>makeNewUUID()\<close> returned to the calls that append a payload.\<close>

fun call_uuids :: "call list \<Rightarrow> string list" where
  "call_uuids [] = []"
| "call_uuids (AddFromPlistContents plist_dict domain manage byhost now new_uuid # cs) =
     (case plist_payload_dict plist_dict domain manage byhost now of
        Inl e \<Rightarrow> call_uuids cs
      | Inr payload_dict \<Rightarrow> new_uuid # call_uuids cs)"
| "call_uuids (AddFromMCX mcxdata new_uuid # cs) = new_uuid # call_uuids cs"
| "call_uuids (FinalizeAndSave output_path # cs) = call_uuids cs"

subsection \<open>getMCXData, lines 188 to 199\<close>

text \<open>
  The loop of \<^verbatim>\<open>getMCXData\<close> over the items of \<^verbatim>\<open>mcx_data_plist\<close>.
  \<open>readPlistFromString\<close> is the plist decoder, \<open>None\<close> where it raises. Only
  \<^verbatim>\<open>KeyError\<close> is caught; an item that is not a string has no \<^verbatim>\<open>encode\<close>, and a
  decoded item that is not a dictionary cannot be indexed by a string.
\<close>

fun getMCXData_items :: "(string \<Rightarrow> plist option) \<Rightarrow> plist list \<Rightarrow> error + plist list" where
  "getMCXData_items readPlistFromString [] = Inr []"
| "getMCXData_items readPlistFromString (mcx_item # rest) =
     (case mcx_item of
        PString s \<Rightarrow>
          (case readPlistFromString s of
             None \<Rightarrow> Inl (Uncaught ''FoundationPlistException'')
           | Some (PDict mcx_item_data) \<Rightarrow>
               (case dict_get mcx_item_data ''mcx_application_data'' of
                  None \<Rightarrow>
                    Inl (ErrorAndExit
                      (''Unexpected mcx_settings format in MCXSettings array item:'' @
                       [CHR 0x0A] @ s))
                | Some v \<Rightarrow>
                    (case getMCXData_items readPlistFromString rest of
                       Inl e \<Rightarrow> Inl e
                     | Inr mcx_data \<Rightarrow> Inr (v # mcx_data)))
           | Some _ \<Rightarrow> Inl (Uncaught ''TypeError''))
      | _ \<Rightarrow> Inl (Uncaught ''AttributeError''))"

subsection \<open>main, lines 315 to 341, for plist sources\<close>

text \<open>
  What \<^verbatim>\<open>main\<close> reads: whether the import of \<^verbatim>\<open>FoundationPlist\<close> in line 14 succeeded
  (otherwise \<^verbatim>\<open>plistlib\<close> is imported, and the names \<^verbatim>\<open>NSDate\<close> and
  \<^verbatim>\<open>FoundationPlistException\<close> are unbound), whether a path exists, what \<^verbatim>\<open>readPlist\<close>
  decodes from it (\<open>None\<close> where it raises), the value the \<open>k\<close>-th call of
  \<^verbatim>\<open>makeNewUUID()\<close> returns, the \<open>k\<close>-th reading of the clock, and the revision that
  \<^verbatim>\<open>__init__\<close> finds.
\<close>

record environment =
  foundation :: bool
  path_exists :: "string \<Rightarrow> bool"
  readPlist :: "string \<Rightarrow> plist option"
  uuid_at :: "nat \<Rightarrow> string"
  clock_at :: "nat \<Rightarrow> int"
  found_gitrev :: "string option"

text \<open>
  The loop of lines 322 to 334; \<open>n\<close> counts the calls of \<^verbatim>\<open>makeNewUUID()\<close> made so far.
  When \<^verbatim>\<open>readPlist\<close> raises, line 327 evaluates the name \<^verbatim>\<open>FoundationPlistException\<close>,
  which is itself a \<^verbatim>\<open>NameError\<close> after the fallback to \<^verbatim>\<open>plistlib\<close>.
\<close>

fun add_plists ::
  "environment \<Rightarrow> string \<Rightarrow> nat \<Rightarrow> PayloadDict \<Rightarrow> string list \<Rightarrow> error + PayloadDict"
where
  "add_plists env manage n newPayload [] = Inr newPayload"
| "add_plists env manage n newPayload (plist_path # rest) =
     (if \<not> path_exists env plist_path
      then Inl (ErrorAndExit (''No plist file exists at '' @ plist_path))
      else (case readPlist env plist_path of
              None \<Rightarrow>
                if foundation env
                then Inl (ErrorAndExit (''Error decoding plist data in file '' @ plist_path))
                else Inl (Uncaught ''NameError'')
            | Some source_data \<Rightarrow>
                (let source_domain = getDomainFromPlist plist_path;
                     now = (if foundation env then Some (clock_at env n) else None)
                 in case addPayloadFromPlistContents newPayload source_data
                           (name source_domain) manage (is_byhost source_domain)
                           now (uuid_at env n) of
                      Inl e \<Rightarrow> Inl e
                    | Inr newPayload \<Rightarrow> add_plists env manage (Suc n) newPayload rest)))"

text \<open>
  Lines 315 to 341 when \<^verbatim>\<open>options.plist\<close> is given: the object is created, every plist
  is added, and the document is written once, at the end. The result is the file written.
\<close>

definition main_plists ::
  "environment \<Rightarrow> string \<Rightarrow> string option \<Rightarrow> bool \<Rightarrow> string \<Rightarrow> string \<Rightarrow> string \<Rightarrow>
   string list \<Rightarrow> string \<Rightarrow> error + (string \<times> profile)"
where
  "main_plists env identifier uuid removal_allowed organization displayname manage plists
     output_file =
     (let newPayload =
            PayloadDict_init identifier uuid removal_allowed organization displayname
              (uuid_at env 0) (found_gitrev env);
          n = (if uuid_given uuid then 0 else 1)
      in case add_plists env manage n newPayload plists of
           Inl e \<Rightarrow> Inl e
         | Inr newPayload \<Rightarrow> Inr (snd (finalizeAndSave newPayload output_file)))"

subsection \<open>The textual form of a version-4 UUID\<close>

text \<open>
  The standard textual form of a version-4 UUID (RFC 4122): 36 characters, lower-case
  hexadecimal digits in groups of 8, 4, 4, 4 and 12 separated by hyphens, the version digit
  4 opening the third group and one of 8, 9, a, b, the variant, opening the fourth.
\<close>

definition lower_hex :: "char \<Rightarrow> bool" where
  "lower_hex c = (c \<in> set ''0123456789abcdef'')"

definition uuid4_text :: "string \<Rightarrow> bool" where
  "uuid4_text t =
     (length t = 36 \<and>
      list_all (\<lambda>i. if i \<in> {8, 13, 18, 23} then t ! i = CHR ''-'' else lower_hex (t ! i))
        [0..<36] \<and>
      t ! 14 = CHR ''4'' \<and> t ! 19 \<in> set ''89ab'')"

section \<open>Properties\<close>

subsection \<open>What appending and finalizing leave alone\<close>

lemma addPayload_fixed:
  "profile.PayloadUUID (data (addPayload self c u)) = profile.PayloadUUID (data self)"
  "profile.PayloadIdentifier (data (addPayload self c u)) = profile.PayloadIdentifier (data self)"
  "PayloadRemovalDisallowed (data (addPayload self c u)) = PayloadRemovalDisallowed (data self)"
  "gitrev (addPayload self c u) = gitrev self"
  by (simp_all add: addPayload_def Let_def)

lemma addPayload_content:
  "profile.PayloadContent (data (addPayload self c u)) =
     profile.PayloadContent (data self) @
       [\<lparr>payload.PayloadVersion = 1, PayloadUUID = u, PayloadEnabled = True,
         PayloadType = ''com.apple.ManagedClient.preferences'',
         PayloadIdentifier = payload_identifier (profile.PayloadUUID (data self)) u,
         PayloadContent = c\<rparr>]"
  by (simp add: addPayload_def Let_def)

lemma finalize_fixed:
  "profile.PayloadUUID (data (fst (finalizeAndSave self p))) = profile.PayloadUUID (data self)"
  "profile.PayloadIdentifier (data (fst (finalizeAndSave self p))) =
     profile.PayloadIdentifier (data self)"
  "PayloadRemovalDisallowed (data (fst (finalizeAndSave self p))) =
     PayloadRemovalDisallowed (data self)"
  "profile.PayloadContent (data (fst (finalizeAndSave self p))) =
     profile.PayloadContent (data self)"
  "PayloadDisplayName (data (fst (finalizeAndSave self p))) = PayloadDisplayName (data self)"
  "gitrev (fst (finalizeAndSave self p)) = gitrev self"
  by (simp_all add: finalizeAndSave_def Let_def split: option.splits)

lemma finalize_written:
  "snd (finalizeAndSave self p) = (p, data (fst (finalizeAndSave self p)))"
  by (simp add: finalizeAndSave_def Let_def)

lemma apply_call_fixed:
  "profile.PayloadUUID (data (apply_call self c)) = profile.PayloadUUID (data self)"
  "profile.PayloadIdentifier (data (apply_call self c)) = profile.PayloadIdentifier (data self)"
  "PayloadRemovalDisallowed (data (apply_call self c)) = PayloadRemovalDisallowed (data self)"
  by (cases c; simp add: addPayloadFromPlistContents_def addPayloadFromMCX_def addPayload_fixed
        finalize_fixed split: sum.splits)+

lemma apply_calls_fixed:
  "profile.PayloadUUID (data (apply_calls self cs)) = profile.PayloadUUID (data self)"
  "profile.PayloadIdentifier (data (apply_calls self cs)) = profile.PayloadIdentifier (data self)"
  "PayloadRemovalDisallowed (data (apply_calls self cs)) = PayloadRemovalDisallowed (data self)"
  unfolding apply_calls_def
  by (induction cs arbitrary: self; simp add: apply_call_fixed)+

text \<open>
  One call changes at most the description, the display name and the payload array: the
  object afterwards is the object before with those three fields replaced.
\<close>

lemma apply_call_shape:
  "apply_call self x =
     self\<lparr>data := (data self)
       \<lparr>PayloadDescription := PayloadDescription (data (apply_call self x)),
        PayloadDisplayName := PayloadDisplayName (data (apply_call self x)),
        profile.PayloadContent := profile.PayloadContent (data (apply_call self x))\<rparr>\<rparr>"
  by (cases x)
     (simp_all add: addPayloadFromPlistContents_def addPayloadFromMCX_def addPayload_def
        finalizeAndSave_def Let_def split: option.splits sum.splits)

lemma apply_calls_shape:
  "apply_calls self cs =
     self\<lparr>data := (data self)
       \<lparr>PayloadDescription := PayloadDescription (data (apply_calls self cs)),
        PayloadDisplayName := PayloadDisplayName (data (apply_calls self cs)),
        profile.PayloadContent := profile.PayloadContent (data (apply_calls self cs))\<rparr>\<rparr>"
proof (induction cs rule: rev_induct)
  case Nil
  show ?case by (simp add: apply_calls_def)
next
  case (snoc x xs)
  define p where "p = apply_calls self xs"
  define q where "q = apply_call p x"
  have step: "apply_calls self (xs @ [x]) = q"
    by (simp add: apply_calls_def p_def q_def)
  have 1: "p = self\<lparr>data := (data self)
       \<lparr>PayloadDescription := PayloadDescription (data p),
        PayloadDisplayName := PayloadDisplayName (data p),
        profile.PayloadContent := profile.PayloadContent (data p)\<rparr>\<rparr>"
    using snoc.IH by (simp add: p_def)
  have 2: "q = p\<lparr>data := (data p)
       \<lparr>PayloadDescription := PayloadDescription (data q),
        PayloadDisplayName := PayloadDisplayName (data q),
        profile.PayloadContent := profile.PayloadContent (data q)\<rparr>\<rparr>"
    unfolding q_def by (rule apply_call_shape)
  have "q = self\<lparr>data := (data self)
       \<lparr>PayloadDescription := PayloadDescription (data q),
        PayloadDisplayName := PayloadDisplayName (data q),
        profile.PayloadContent := profile.PayloadContent (data q)\<rparr>\<rparr>"
    by (subst 2, subst (1 2) 1) simp
  then show ?case unfolding step .
qed

subsection \<open>What makeNewUUID returns\<close>

text \<open>The version and the variant that \<^verbatim>\<open>uuid4\<close> sets, read back as hexadecimal digits.\<close>

lemma uuid4_version: "take_bit 4 (drop_bit 76 (uuid4 r)) = 4"
  by (rule bit_word_eqI) (auto simp: uuid4_def Let_def bit_simps)

lemma uuid4_variant_bits:
  "bit (uuid4 r) 63" "\<not> bit (uuid4 r) 62" "bit (uuid4 r) 61 = bit r 61"
  "bit (uuid4 r) 60 = bit r 60"
  by (simp_all add: uuid4_def Let_def bit_simps)

lemma uuid4_variant:
  "take_bit 4 (drop_bit 60 (uuid4 r)) =
     (if bit r 61 then (if bit r 60 then 11 else 10) else (if bit r 60 then 9 else 8))"
  (is "?l = ?r")
proof (rule bit_word_eqI)
  fix n
  assume "n < LENGTH(128)"
  have r: "?r = take_bit 4 ?r" by simp
  consider "n = 0" | "n = 1" | "n = 2" | "n = 3" | "4 \<le> n" by linarith
  then show "bit ?l n = bit ?r n"
  proof cases
    case 1
    then show ?thesis using uuid4_variant_bits [of r] by (simp add: bit_simps)
  next
    case 2
    then show ?thesis using uuid4_variant_bits [of r] by (simp add: bit_simps)
  next
    case 3
    then show ?thesis using uuid4_variant_bits [of r] by (simp add: bit_simps)
  next
    case 4
    then show ?thesis using uuid4_variant_bits [of r] by (simp add: bit_simps)
  next
    case 5
    then have "\<not> bit ?l n" by (simp add: bit_simps)
    moreover from 5 have "\<not> bit (take_bit 4 ?r) n" by (simp only: bit_take_bit_iff) simp
    ultimately show ?thesis using r by simp
  qed
qed

lemma nibble_less: "unat (take_bit 4 (w :: 128 word)) < 16"
proof -
  have "take_bit 4 (unat w) < 2 ^ 4" by (rule take_bit_nat_less_exp)
  then show ?thesis by (simp add: unsigned_take_bit_eq)
qed

lemma lower_hex_digit: "lower_hex (hex_digit (unat (take_bit 4 (w :: 128 word))))"
  unfolding lower_hex_def hex_digit_def using nibble_less [of w] by (intro nth_mem) simp

lemma lower_hex_4: "lower_hex CHR ''4''"
  by (simp add: lower_hex_def)

lemma hex32_list:
  "hex32 w = map (\<lambda>k. hex_digit (unat (take_bit 4 (drop_bit k w))))
     [124, 120, 116, 112, 108, 104, 100, 96, 92, 88, 84, 80, 76, 72, 68, 64,
      60, 56, 52, 48, 44, 40, 36, 32, 28, 24, 20, 16, 12, 8, 4, 0]"
  by (simp add: hex32_def upt_rec)

lemma version_digit: "hex_digit (unat (take_bit 4 (drop_bit 76 (uuid4 r)))) = CHR ''4''"
  by (simp add: uuid4_version hex_digit_def)

lemma variant_digit: "hex_digit (unat (take_bit 4 (drop_bit 60 (uuid4 r)))) \<in> set ''89ab''"
  by (simp add: uuid4_variant hex_digit_def)

text \<open>
  Whatever the random bytes, \<^verbatim>\<open>makeNewUUID()\<close> returns a version-4 UUID in standard
  textual form.
\<close>

lemma makeNewUUID_version4: "uuid4_text (makeNewUUID random)"
  using variant_digit [of random]
  by (simp add: uuid4_text_def makeNewUUID_def uuid_str_def hex32_list Let_def upt_rec
      lower_hex_digit version_digit lower_hex_4)

lemma makeNewUUID_zero: "makeNewUUID 0 = ''00000000-0000-4000-8000-000000000000''"
  by code_simp

subsection \<open>Creation\<close>

text \<open>
  C6 (as the code has it). Created with a non-empty UUID supplied by the caller, the
  document's \<^verbatim>\<open>PayloadUUID\<close> is that value, whatever \<^verbatim>\<open>makeNewUUID()\<close> would have
  returned. Created with the empty string for a UUID, or with none, the document's
  \<^verbatim>\<open>PayloadUUID\<close> is the value \<^verbatim>\<open>makeNewUUID()\<close> returns: line 27 tests the truth of the
  argument, and Python takes the empty string, like the default \<^verbatim>\<open>False\<close>, as false. That
  value is, for all random bytes, a version-4 UUID in standard textual form.
\<close>

theorem init_uuid:
  "(u \<noteq> [] \<longrightarrow>
      profile.PayloadUUID (data (PayloadDict_init identifier (Some u) removal_allowed
        organization displayname new_uuid git)) = u) \<and>
   profile.PayloadUUID (data (PayloadDict_init identifier (Some []) removal_allowed
        organization displayname new_uuid git)) = new_uuid \<and>
   profile.PayloadUUID (data (PayloadDict_init identifier None removal_allowed
        organization displayname new_uuid git)) = new_uuid \<and>
   profile.PayloadUUID (data (PayloadDict_init identifier None removal_allowed
        organization displayname (makeNewUUID random) git)) = makeNewUUID random \<and>
   uuid4_text (makeNewUUID random)"
  by (simp add: PayloadDict_init_def uuid_given_def makeNewUUID_version4)

theorem init_uuid_witness:
  "''0f8fad5b-d9cb-469f-a165-70867728950e'' \<noteq> [] \<and>
   profile.PayloadUUID (data (PayloadDict_init ''com.example.test''
      (Some ''0f8fad5b-d9cb-469f-a165-70867728950e'') False ''Example'' []
      (makeNewUUID 0) None)) = ''0f8fad5b-d9cb-469f-a165-70867728950e'' \<and>
   profile.PayloadUUID (data (PayloadDict_init ''com.example.test'' None False ''Example'' []
      (makeNewUUID 0) None)) = ''00000000-0000-4000-8000-000000000000'' \<and>
   uuid4_text ''00000000-0000-4000-8000-000000000000''"
  using init_uuid [of "''0f8fad5b-d9cb-469f-a165-70867728950e''" "''com.example.test''" False
      "''Example''" "[]" "makeNewUUID 0" None 0]
  by (simp add: makeNewUUID_zero)

text \<open>
  C6 as stated holds for every supplied value. The empty string is a value the caller can
  supply (\<^verbatim>\<open>main\<close> passes on whatever \<^verbatim>\<open>PayloadUUID\<close> the profile named by
  \<^verbatim>\<open>--identifier-from-profile\<close> holds): the document then carries a generated UUID, not the
  supplied value.
\<close>

theorem init_uuid_empty_string:
  "profile.PayloadUUID (data (PayloadDict_init ''com.example.test'' (Some []) False [] []
      (makeNewUUID 0) None)) = ''00000000-0000-4000-8000-000000000000'' \<and>
   profile.PayloadUUID (data (PayloadDict_init ''com.example.test'' (Some []) False [] []
      (makeNewUUID 0) None)) \<noteq> []"
  by (simp add: PayloadDict_init_def uuid_given_def makeNewUUID_zero)

text \<open>
  C9. The document's \<^verbatim>\<open>PayloadRemovalDisallowed\<close> is the negation of the argument
  \<^verbatim>\<open>removal_allowed\<close>, at creation and in the document that \<^verbatim>\<open>finalizeAndSave\<close> hands
  to \<^verbatim>\<open>writePlist\<close> after any calls of the methods.
\<close>

theorem removal_disallowed_negates:
  "PayloadRemovalDisallowed (data (PayloadDict_init identifier uuid removal_allowed
      organization displayname new_uuid git)) = (\<not> removal_allowed) \<and>
   PayloadRemovalDisallowed (snd (snd (finalizeAndSave
      (apply_calls (PayloadDict_init identifier uuid removal_allowed organization displayname
         new_uuid git) cs) output_path))) = (\<not> removal_allowed)"
  by (simp add: finalize_written finalize_fixed apply_calls_fixed) (simp add: PayloadDict_init_def)

subsection \<open>UUID and identifier of the document\<close>

text \<open>
  C8. \<^verbatim>\<open>PayloadUUID\<close> and \<^verbatim>\<open>PayloadIdentifier\<close> are set by \<^verbatim>\<open>__init__\<close> and no
  sequence of calls that append payloads or finalize changes them: after the calls the
  identifier is the one given at creation, the UUID the one chosen at creation, and the
  object differs from the created one in its description, display name and payload array
  at most.
\<close>

theorem calls_keep_uuid_identifier:
  "profile.PayloadIdentifier (data (PayloadDict_init identifier uuid removal_allowed
      organization displayname new_uuid git)) = identifier \<and>
   profile.PayloadUUID (data (apply_calls (PayloadDict_init identifier uuid removal_allowed
      organization displayname new_uuid git) cs)) =
     profile.PayloadUUID (data (PayloadDict_init identifier uuid removal_allowed
      organization displayname new_uuid git)) \<and>
   profile.PayloadIdentifier (data (apply_calls (PayloadDict_init identifier uuid
      removal_allowed organization displayname new_uuid git) cs)) = identifier \<and>
   profile.PayloadUUID (data (apply_calls self cs)) = profile.PayloadUUID (data self) \<and>
   profile.PayloadIdentifier (data (apply_calls self cs)) =
     profile.PayloadIdentifier (data self) \<and>
   (\<exists>d n c. apply_calls self cs =
      self\<lparr>data := (data self)\<lparr>PayloadDescription := d, PayloadDisplayName := n,
        profile.PayloadContent := c\<rparr>\<rparr>)"
proof -
  have "profile.PayloadIdentifier (data (PayloadDict_init identifier uuid removal_allowed
      organization displayname new_uuid git)) = identifier"
    by (simp add: PayloadDict_init_def)
  moreover have "\<exists>d n c. apply_calls self cs =
      self\<lparr>data := (data self)\<lparr>PayloadDescription := d, PayloadDisplayName := n,
        profile.PayloadContent := c\<rparr>\<rparr>"
    using apply_calls_shape [of self cs] by blast
  ultimately show ?thesis
    by (simp add: apply_calls_fixed)
qed

subsection \<open>Identifiers of the payload entries\<close>

lemma apply_calls_entries:
  "map payload.PayloadUUID (profile.PayloadContent (data (apply_calls self cs))) =
     map payload.PayloadUUID (profile.PayloadContent (data self)) @ call_uuids cs"
  "map payload.PayloadIdentifier (profile.PayloadContent (data (apply_calls self cs))) =
     map payload.PayloadIdentifier (profile.PayloadContent (data self)) @
     map (payload_identifier (profile.PayloadUUID (data self))) (call_uuids cs)"
  unfolding apply_calls_def
  by (induction cs arbitrary: self rule: call_uuids.induct;
      simp add: addPayloadFromPlistContents_def addPayloadFromMCX_def addPayload_fixed
        addPayload_content finalize_fixed split: sum.splits)+

lemma inj_payload_identifier: "inj (payload_identifier d)"
  by (simp add: inj_def payload_identifier_def)

lemma init_content:
  "profile.PayloadContent (data (PayloadDict_init identifier uuid removal_allowed organization
     displayname new_uuid git)) = []"
  by (simp add: PayloadDict_init_def)

text \<open>
  Every entry of a document that started empty carries the identifier that line 76
  formats from the document's UUID and the entry's own.
\<close>

lemma entry_identifier:
  assumes "e \<in> set (profile.PayloadContent (data (apply_calls
      (PayloadDict_init identifier uuid removal_allowed organization displayname new_uuid git)
      cs)))"
  shows "payload.PayloadIdentifier e =
     payload_identifier
       (profile.PayloadUUID (data (apply_calls
          (PayloadDict_init identifier uuid removal_allowed organization displayname new_uuid
             git) cs)))
       (payload.PayloadUUID e)"
proof -
  let ?pd = "PayloadDict_init identifier uuid removal_allowed organization displayname new_uuid
      git"
  let ?es = "profile.PayloadContent (data (apply_calls ?pd cs))"
  have "map payload.PayloadIdentifier ?es =
      map (payload_identifier (profile.PayloadUUID (data ?pd))) (map payload.PayloadUUID ?es)"
    by (simp only: apply_calls_entries init_content list.map append_Nil)
  then have "map payload.PayloadIdentifier ?es =
      map (\<lambda>e. payload_identifier (profile.PayloadUUID (data ?pd)) (payload.PayloadUUID e)) ?es"
    by (simp only: map_map comp_def)
  then have "\<forall>e \<in> set ?es. payload.PayloadIdentifier e =
      payload_identifier (profile.PayloadUUID (data ?pd)) (payload.PayloadUUID e)"
    by (simp only: map_eq_conv)
  with assms show ?thesis
    by (simp only: apply_calls_fixed)
qed

text \<open>
  C1 (as the code has it). For every document and every sequence of calls: the entries of
  the payload array carry, in order, the UUIDs generated for the calls that appended them;
  each entry's \<^verbatim>\<open>PayloadIdentifier\<close> is the text
  \<^verbatim>\<open>MCXToProfile.<document UUID>.alacarte.customsettings.<entry UUID>\<close>; it is determined
  by the document's identifier, the document's UUID and the entry's own UUID, so that two
  entries, of one document or of two, that agree on these three have the same identifier;
  and the identifiers of the entries of one document are pairwise distinct exactly when
  the UUIDs generated for them are pairwise distinct.
\<close>

theorem payload_identifiers_determined:
  "map payload.PayloadUUID (profile.PayloadContent (data (apply_calls
      (PayloadDict_init identifier uuid removal_allowed organization displayname new_uuid git)
      cs))) = call_uuids cs \<and>
   (\<forall>e \<in> set (profile.PayloadContent (data (apply_calls
        (PayloadDict_init identifier uuid removal_allowed organization displayname new_uuid
           git) cs))).
      payload.PayloadIdentifier e =
        ''MCXToProfile.'' @
        profile.PayloadUUID (data (apply_calls
          (PayloadDict_init identifier uuid removal_allowed organization displayname new_uuid
             git) cs)) @
        ''.alacarte.customsettings.'' @ payload.PayloadUUID e) \<and>
   (\<forall>e \<in> set (profile.PayloadContent (data (apply_calls
        (PayloadDict_init identifier uuid removal_allowed organization displayname new_uuid
           git) cs))).
    \<forall>e' \<in> set (profile.PayloadContent (data (apply_calls
        (PayloadDict_init identifier' uuid' removal_allowed' organization' displayname'
           new_uuid' git') cs'))).
      profile.PayloadIdentifier (data (apply_calls
        (PayloadDict_init identifier uuid removal_allowed organization displayname new_uuid
           git) cs)) =
      profile.PayloadIdentifier (data (apply_calls
        (PayloadDict_init identifier' uuid' removal_allowed' organization' displayname'
           new_uuid' git') cs')) \<and>
      profile.PayloadUUID (data (apply_calls
        (PayloadDict_init identifier uuid removal_allowed organization displayname new_uuid
           git) cs)) =
      profile.PayloadUUID (data (apply_calls
        (PayloadDict_init identifier' uuid' removal_allowed' organization' displayname'
           new_uuid' git') cs')) \<and>
      payload.PayloadUUID e = payload.PayloadUUID e' \<longrightarrow>
      payload.PayloadIdentifier e = payload.PayloadIdentifier e') \<and>
   distinct (map payload.PayloadIdentifier (profile.PayloadContent (data (apply_calls
      (PayloadDict_init identifier uuid removal_allowed organization displayname new_uuid git)
      cs)))) = distinct (call_uuids cs)"
proof (intro conjI ballI impI)
  let ?pd = "PayloadDict_init identifier uuid removal_allowed organization displayname new_uuid
      git"
  let ?pd' = "PayloadDict_init identifier' uuid' removal_allowed' organization' displayname'
      new_uuid' git'"
  show "map payload.PayloadUUID (profile.PayloadContent (data (apply_calls ?pd cs))) =
      call_uuids cs"
    by (simp add: apply_calls_entries init_content)
  have ids: "map payload.PayloadIdentifier (profile.PayloadContent (data (apply_calls ?pd cs))) =
      map (payload_identifier (profile.PayloadUUID (data ?pd))) (call_uuids cs)"
    by (simp add: apply_calls_entries init_content)
  have "distinct (map (payload_identifier (profile.PayloadUUID (data ?pd))) (call_uuids cs)) =
      distinct (call_uuids cs)"
    using inj_payload_identifier [of "profile.PayloadUUID (data ?pd)"]
    by (simp add: distinct_map inj_on_def inj_def)
  then show "distinct (map payload.PayloadIdentifier
      (profile.PayloadContent (data (apply_calls ?pd cs)))) = distinct (call_uuids cs)"
    by (simp only: ids)
next
  fix e
  assume "e \<in> set (profile.PayloadContent (data (apply_calls
      (PayloadDict_init identifier uuid removal_allowed organization displayname new_uuid git)
      cs)))"
  then show "payload.PayloadIdentifier e =
      ''MCXToProfile.'' @
      profile.PayloadUUID (data (apply_calls
        (PayloadDict_init identifier uuid removal_allowed organization displayname new_uuid
           git) cs)) @
      ''.alacarte.customsettings.'' @ payload.PayloadUUID e"
    by (simp add: entry_identifier payload_identifier_def)
next
  fix e e'
  assume e: "e \<in> set (profile.PayloadContent (data (apply_calls
      (PayloadDict_init identifier uuid removal_allowed organization displayname new_uuid git)
      cs)))"
    and e': "e' \<in> set (profile.PayloadContent (data (apply_calls
      (PayloadDict_init identifier' uuid' removal_allowed' organization' displayname' new_uuid'
         git') cs')))"
    and same: "profile.PayloadIdentifier (data (apply_calls
        (PayloadDict_init identifier uuid removal_allowed organization displayname new_uuid
           git) cs)) =
      profile.PayloadIdentifier (data (apply_calls
        (PayloadDict_init identifier' uuid' removal_allowed' organization' displayname'
           new_uuid' git') cs')) \<and>
      profile.PayloadUUID (data (apply_calls
        (PayloadDict_init identifier uuid removal_allowed organization displayname new_uuid
           git) cs)) =
      profile.PayloadUUID (data (apply_calls
        (PayloadDict_init identifier' uuid' removal_allowed' organization' displayname'
           new_uuid' git') cs')) \<and>
      payload.PayloadUUID e = payload.PayloadUUID e'"
  show "payload.PayloadIdentifier e = payload.PayloadIdentifier e'"
    unfolding entry_identifier [OF e] entry_identifier [OF e'] using same by simp
qed

theorem payload_identifiers_determined_witness:
  "distinct (call_uuids
      [AddFromMCX [(''com.apple.dock'', PDict [])] ''E1'',
       AddFromPlistContents (PDict []) ''com.apple.finder'' ''Always'' False None ''E2'']) \<and>
   distinct (map payload.PayloadIdentifier (profile.PayloadContent (data (apply_calls
      (PayloadDict_init ''com.example.test'' None False [] [] ''D'' None)
      [AddFromMCX [(''com.apple.dock'', PDict [])] ''E1'',
       AddFromPlistContents (PDict []) ''com.apple.finder'' ''Always'' False None ''E2'']))))"
proof -
  have h: "distinct (call_uuids
      [AddFromMCX [(''com.apple.dock'', PDict [])] ''E1'',
       AddFromPlistContents (PDict []) ''com.apple.finder'' ''Always'' False None ''E2''])"
    by (simp add: plist_payload_dict_def Let_def)
  from payload_identifiers_determined [of "''com.example.test''" None False "[]" "[]" "''D''" None
      "[AddFromMCX [(''com.apple.dock'', PDict [])] ''E1'',
        AddFromPlistContents (PDict []) ''com.apple.finder'' ''Always'' False None ''E2'']",
      THEN conjunct2, THEN conjunct2, THEN conjunct2]
  have "distinct (map payload.PayloadIdentifier (profile.PayloadContent (data (apply_calls
      (PayloadDict_init ''com.example.test'' None False [] [] ''D'' None)
      [AddFromMCX [(''com.apple.dock'', PDict [])] ''E1'',
       AddFromPlistContents (PDict []) ''com.apple.finder'' ''Always'' False None ''E2''])))) =
    distinct (call_uuids
      [AddFromMCX [(''com.apple.dock'', PDict [])] ''E1'',
       AddFromPlistContents (PDict []) ''com.apple.finder'' ''Always'' False None ''E2''])"
    .
  with h show ?thesis by (simp only: simp_thms)
qed

text \<open>
  C1 as stated has the identifiers of all entries of one document pairwise distinct, for
  every sequence of appends. Nothing in the code compares an entry's UUID with the earlier
  ones: when \<^verbatim>\<open>makeNewUUID()\<close> returns the same value to two appends (the same 16 random
  bytes twice), the two entries get the same identifier.
\<close>

theorem payload_identifiers_collide:
  "\<not> distinct (map payload.PayloadIdentifier (profile.PayloadContent (data (apply_calls
      (PayloadDict_init ''com.example.test'' None False [] [] (makeNewUUID 1) None)
      [AddFromMCX [(''com.apple.dock'', PDict [])] (makeNewUUID 2),
       AddFromMCX [(''com.apple.finder'', PDict [])] (makeNewUUID 2)]))))"
  by (simp add: apply_calls_def addPayloadFromMCX_def addPayload_content addPayload_fixed
      init_content)

subsection \<open>Payloads from plist contents\<close>

text \<open>The result of lines 95 to 115, written out.\<close>

lemma plist_payload_dict_eq:
  "plist_payload_dict plist_dict domain manage byhost now =
     (if manage = ''Once'' \<and> now = None then Inl (Uncaught ''NameError'')
      else Inr
        [(if byhost then domain @ ''.ByHost'' else domain,
          PDict [(if manage = ''Always'' then ''Forced'' else ''Set-Once'',
                  PArray [PDict ((''mcx_preference_settings'', plist_dict) #
                    (case now of
                       Some t \<Rightarrow> if manage = ''Once'' then [(''mcx_data_timestamp'', PDate t)] else []
                     | None \<Rightarrow> []))])])])"
  by (simp add: plist_payload_dict_def Let_def split: option.splits)

text \<open>
  Whenever the function returns, the body is as the specification describes it: one domain
  key, with \<^verbatim>\<open>.ByHost\<close> appended exactly for a ByHost preference; under it the single key
  \<^verbatim>\<open>Forced\<close> exactly for the mode Always and \<^verbatim>\<open>Set-Once\<close> otherwise; a timestamp
  exactly for the mode Once. It returns for every mode but Once, and for Once when
  \<^verbatim>\<open>NSDate\<close> is bound.
\<close>

lemma plist_payload_modes:
  assumes "plist_payload_dict plist_dict domain manage byhost now = Inr body"
  shows "\<exists>modes settings.
     body = [(if byhost then domain @ ''.ByHost'' else domain, PDict modes)] \<and>
     (keys body = [domain @ ''.ByHost'']) = byhost \<and>
     (keys modes = [''Forced'']) = (manage = ''Always'') \<and>
     (keys modes = [''Set-Once'']) = (manage \<noteq> ''Always'') \<and>
     modes = [(if manage = ''Always'' then ''Forced'' else ''Set-Once'',
               PArray [PDict settings])] \<and>
     dict_get settings ''mcx_preference_settings'' = Some plist_dict \<and>
     (''mcx_data_timestamp'' \<in> set (keys settings)) = (manage = ''Once'') \<and>
     (\<exists>t. now = Some t \<and> dict_get settings ''mcx_data_timestamp'' = Some (PDate t)) =
       (manage = ''Once'')"
proof (cases "manage = ''Once''")
  case True
  with assms obtain t where "now = Some t"
    by (cases now) (simp_all add: plist_payload_dict_eq)
  with True assms show ?thesis
    by (auto simp: plist_payload_dict_eq keys_def dict_get_def)
next
  case False
  with assms show ?thesis
    by (cases now) (auto simp: plist_payload_dict_eq keys_def dict_get_def)
qed

lemma plist_payload_returns:
  "(\<exists>body. plist_payload_dict plist_dict domain manage byhost now = Inr body) =
     (manage \<noteq> ''Once'' \<or> now \<noteq> None)"
  by (simp add: plist_payload_dict_eq)

lemma addPayloadFromPlistContents_returns:
  assumes "plist_payload_dict plist_dict domain manage byhost now = Inr body"
  shows "addPayloadFromPlistContents self plist_dict domain manage byhost now new_uuid =
     Inr (addPayload self body new_uuid)"
  using assms by (simp add: addPayloadFromPlistContents_def)

text \<open>
  C3 has a body with a timestamp for the mode Once. The comment of line 112 says the same
  (\<^verbatim>\<open># Add a datestamp if we're managing 'Once'\<close>), and line 114 does it with
  \<^verbatim>\<open>NSDate.new()\<close>. After the fallback of lines 15 and 16 to \<^verbatim>\<open>plistlib\<close> the name
  \<^verbatim>\<open>NSDate\<close> is unbound: for the mode Once no body is produced at all, with or without a
  timestamp, and the preference tree \<^verbatim>\<open>{"tilesize": 48}\<close> for \<^verbatim>\<open>com.apple.dock\<close> ends in
  \<^verbatim>\<open>NameError\<close>.
\<close>

theorem plist_payload_once_unbound:
  "plist_payload_dict plist_dict domain ''Once'' byhost None = Inl (Uncaught ''NameError'') \<and>
   plist_payload_dict (PDict [(''tilesize'', PInteger 48)]) ''com.apple.dock'' ''Once'' False None =
     Inl (Uncaught ''NameError'')"
  by (simp add: plist_payload_dict_eq)

text \<open>
  C10 has no mode string raise an error. The same unbound \<^verbatim>\<open>NSDate\<close> makes the method
  raise \<^verbatim>\<open>NameError\<close> for the mode \<^verbatim>\<open>Once\<close>, before anything is appended; it is the one
  case in which the method raises, whatever the mode string.
\<close>

theorem once_raises_name_error:
  "addPayloadFromPlistContents self plist_dict domain ''Once'' byhost None new_uuid =
     Inl (Uncaught ''NameError'') \<and>
   (\<exists>e. addPayloadFromPlistContents self plist_dict domain manage byhost now new_uuid = Inl e) =
     (manage = ''Once'' \<and> now = None)"
  by (simp add: addPayloadFromPlistContents_def plist_payload_dict_eq)

text \<open>
  Apart from that case the method does what C10 says: it appends one entry; any mode other
  than exactly \<^verbatim>\<open>Always\<close> gives a \<^verbatim>\<open>Set-Once\<close> record, and the settings carry a
  timestamp only for the mode \<^verbatim>\<open>Once\<close>.
\<close>

lemma any_manage_string:
  assumes "manage \<noteq> ''Once'' \<or> now \<noteq> None"
  shows "\<exists>modes settings.
     addPayloadFromPlistContents self plist_dict domain manage byhost now new_uuid =
       Inr (addPayload self
         [(if byhost then domain @ ''.ByHost'' else domain, PDict modes)] new_uuid) \<and>
     (manage \<noteq> ''Always'' \<longrightarrow> modes = [(''Set-Once'', PArray [PDict settings])]) \<and>
     (manage = ''Always'' \<longrightarrow> modes = [(''Forced'', PArray [PDict settings])]) \<and>
     dict_get settings ''mcx_preference_settings'' = Some plist_dict \<and>
     (''mcx_data_timestamp'' \<in> set (keys settings)) = (manage = ''Once'')"
proof -
  from assms obtain body where body: "plist_payload_dict plist_dict domain manage byhost now =
      Inr body"
    using plist_payload_returns [of plist_dict domain manage byhost now] by blast
  from plist_payload_modes [OF body] obtain modes settings where
    "body = [(if byhost then domain @ ''.ByHost'' else domain, PDict modes)]"
    "modes = [(if manage = ''Always'' then ''Forced'' else ''Set-Once'', PArray [PDict settings])]"
    "dict_get settings ''mcx_preference_settings'' = Some plist_dict"
    "(''mcx_data_timestamp'' \<in> set (keys settings)) = (manage = ''Once'')"
    by blast
  with addPayloadFromPlistContents_returns [OF body, of self new_uuid] show ?thesis
    by (intro exI [of _ modes] exI [of _ settings]) simp
qed

subsection \<open>Flattening the MCX attribute\<close>

text \<open>
  The loop returns a list exactly when every item is a string that decodes to a dictionary
  holding \<^verbatim>\<open>mcx_application_data\<close>, and the list is then the items' values, in order.
\<close>

lemma getMCXData_items_Inr_D:
  "getMCXData_items dec items = Inr bodies \<Longrightarrow>
     list_all2 (\<lambda>item body. \<exists>s d. item = PString s \<and> dec s = Some (PDict d) \<and>
        dict_get d ''mcx_application_data'' = Some body) items bodies"
proof (induction items arbitrary: bodies)
  case Nil
  then show ?case by simp
next
  case (Cons item items)
  from Cons.prems show ?case
    by (auto split: plist.splits option.splits sum.splits dest: Cons.IH)
qed

lemma getMCXData_items_Inr_I:
  "list_all2 (\<lambda>item body. \<exists>s d. item = PString s \<and> dec s = Some (PDict d) \<and>
        dict_get d ''mcx_application_data'' = Some body) items bodies \<Longrightarrow>
   getMCXData_items dec items = Inr bodies"
  by (induction items bodies rule: list_all2_induct) auto

lemma getMCXData_items_missing:
  assumes "PString s \<in> set items" "dec s = Some (PDict d)"
    "dict_get d ''mcx_application_data'' = None"
  shows "\<exists>e. getMCXData_items dec items = Inl e"
proof (cases "getMCXData_items dec items")
  case (Inl e)
  then show ?thesis by blast
next
  case (Inr bodies)
  then have "list_all2 (\<lambda>item body. \<exists>s d. item = PString s \<and> dec s = Some (PDict d) \<and>
        dict_get d ''mcx_application_data'' = Some body) items bodies"
    by (rule getMCXData_items_Inr_D)
  with assms(1) obtain body s' d' where "PString s = PString s'" "dec s' = Some (PDict d')"
     "dict_get d' ''mcx_application_data'' = Some body"
    unfolding list_all2_conv_all_nth in_set_conv_nth by metis
  with assms show ?thesis by simp
qed

text \<open>
  C4. When every item of the attribute decodes to a dictionary with the key
  \<^verbatim>\<open>mcx_application_data\<close>, the loop returns the items' values under that key: one per
  item, in the order of the items. What it returns is never anything else: a returned list
  has the length of the attribute and its \<open>i\<close>-th element is the \<open>i\<close>-th item's value. If
  any item decodes to a dictionary without the key, the whole operation ends in an error,
  whatever the other items are.
\<close>

theorem getMCXData_items_all_or_nothing:
  "(list_all2 (\<lambda>item body. \<exists>s d. item = PString s \<and>
        readPlistFromString s = Some (PDict d) \<and>
        dict_get d ''mcx_application_data'' = Some body) items bodies \<longrightarrow>
      getMCXData_items readPlistFromString items = Inr bodies) \<and>
   (getMCXData_items readPlistFromString items = Inr bodies \<longrightarrow>
      length bodies = length items \<and>
      (\<forall>i < length items. \<exists>s d. items ! i = PString s \<and>
         readPlistFromString s = Some (PDict d) \<and>
         dict_get d ''mcx_application_data'' = Some (bodies ! i))) \<and>
   (\<forall>s d. PString s \<in> set items \<and> readPlistFromString s = Some (PDict d) \<and>
      dict_get d ''mcx_application_data'' = None \<longrightarrow>
      (\<exists>e. getMCXData_items readPlistFromString items = Inl e))"
proof (intro conjI impI allI)
  assume "list_all2 (\<lambda>item body. \<exists>s d. item = PString s \<and>
        readPlistFromString s = Some (PDict d) \<and>
        dict_get d ''mcx_application_data'' = Some body) items bodies"
  then show "getMCXData_items readPlistFromString items = Inr bodies"
    by (rule getMCXData_items_Inr_I)
next
  assume "getMCXData_items readPlistFromString items = Inr bodies"
  then have *: "list_all2 (\<lambda>item body. \<exists>s d. item = PString s \<and>
        readPlistFromString s = Some (PDict d) \<and>
        dict_get d ''mcx_application_data'' = Some body) items bodies"
    by (rule getMCXData_items_Inr_D)
  from * show "length bodies = length items"
    by (simp add: list_all2_lengthD)
  fix i assume "i < length items"
  with * show "\<exists>s d. items ! i = PString s \<and> readPlistFromString s = Some (PDict d) \<and>
         dict_get d ''mcx_application_data'' = Some (bodies ! i)"
    by (rule list_all2_nthD)
next
  fix s d
  assume "PString s \<in> set items \<and> readPlistFromString s = Some (PDict d) \<and>
      dict_get d ''mcx_application_data'' = None"
  then show "\<exists>e. getMCXData_items readPlistFromString items = Inl e"
    using getMCXData_items_missing by blast
qed

theorem getMCXData_items_all_or_nothing_witness:
  "list_all2 (\<lambda>item body. \<exists>s d. item = PString s \<and>
        (\<lambda>s. if s = ''dock'' then Some (PDict [(''mcx_application_data'', PString ''A'')])
              else if s = ''finder'' then Some (PDict [(''mcx_application_data'', PString ''B'')])
              else if s = ''loginwindow''
                then Some (PDict [(''mcx_application_data'', PString ''C'')])
              else if s = ''corrupt'' then Some (PDict [(''mcx_other'', PString ''D'')])
              else None) s = Some (PDict d) \<and>
        dict_get d ''mcx_application_data'' = Some body)
      [PString ''dock'', PString ''finder'', PString ''loginwindow'']
      [PString ''A'', PString ''B'', PString ''C''] \<and>
   getMCXData_items
      (\<lambda>s. if s = ''dock'' then Some (PDict [(''mcx_application_data'', PString ''A'')])
              else if s = ''finder'' then Some (PDict [(''mcx_application_data'', PString ''B'')])
              else if s = ''loginwindow''
                then Some (PDict [(''mcx_application_data'', PString ''C'')])
              else if s = ''corrupt'' then Some (PDict [(''mcx_other'', PString ''D'')])
              else None)
      [PString ''dock'', PString ''finder'', PString ''loginwindow''] =
     Inr [PString ''A'', PString ''B'', PString ''C''] \<and>
   (\<exists>e. getMCXData_items
      (\<lambda>s. if s = ''dock'' then Some (PDict [(''mcx_application_data'', PString ''A'')])
              else if s = ''finder'' then Some (PDict [(''mcx_application_data'', PString ''B'')])
              else if s = ''loginwindow''
                then Some (PDict [(''mcx_application_data'', PString ''C'')])
              else if s = ''corrupt'' then Some (PDict [(''mcx_other'', PString ''D'')])
              else None)
      [PString ''dock'', PString ''corrupt'', PString ''loginwindow''] = Inl e)"
proof -
  let ?dec = "\<lambda>s. if s = ''dock'' then Some (PDict [(''mcx_application_data'', PString ''A'')])
              else if s = ''finder'' then Some (PDict [(''mcx_application_data'', PString ''B'')])
              else if s = ''loginwindow''
                then Some (PDict [(''mcx_application_data'', PString ''C'')])
              else if s = ''corrupt'' then Some (PDict [(''mcx_other'', PString ''D'')])
              else None"
  have ok: "list_all2 (\<lambda>item body. \<exists>s d. item = PString s \<and> ?dec s = Some (PDict d) \<and>
        dict_get d ''mcx_application_data'' = Some body)
      [PString ''dock'', PString ''finder'', PString ''loginwindow'']
      [PString ''A'', PString ''B'', PString ''C'']"
    by (simp add: dict_get_def)
  have bad: "PString ''corrupt'' \<in> set [PString ''dock'', PString ''corrupt'', PString ''loginwindow''] \<and>
      ?dec ''corrupt'' = Some (PDict [(''mcx_other'', PString ''D'')]) \<and>
      dict_get [(''mcx_other'', PString ''D'')] ''mcx_application_data'' = None"
    by (simp add: dict_get_def)
  from ok have 1: "getMCXData_items ?dec [PString ''dock'', PString ''finder'', PString ''loginwindow'']
      = Inr [PString ''A'', PString ''B'', PString ''C'']"
    using getMCXData_items_all_or_nothing [of ?dec
        "[PString ''dock'', PString ''finder'', PString ''loginwindow'']"
        "[PString ''A'', PString ''B'', PString ''C'']"]
    by blast
  from bad have 2: "\<exists>e. getMCXData_items ?dec
      [PString ''dock'', PString ''corrupt'', PString ''loginwindow''] = Inl e"
    using getMCXData_items_all_or_nothing [of ?dec
        "[PString ''dock'', PString ''corrupt'', PString ''loginwindow'']" "[]"]
    by blast
  from ok 1 2 show ?thesis by blast
qed

subsection \<open>Domain inference\<close>

lemmas getDomain_defs = getDomainFromPlist_def plist_file_name_def basename_def
  byhost_search_def tok_dollar_def ends_with_tok_def tok_byhost_def tok_mac_def tok_uuid_def
  hex4_dash_def hex_run_def is_hex_def Let_def

text \<open>Splitting and joining at one character: the last component of a dotted name.\<close>

lemma py_split_not_Nil: "py_split sep s \<noteq> []"
  by (induction sep s rule: py_split.induct) (auto split: list.splits)

lemma py_join_Cons_Cons:
  "ws \<noteq> [] \<Longrightarrow> py_join sep ((x # w) # ws) = x # py_join sep (w # ws)"
  by (cases ws) auto

lemma py_join_split_char: "py_join [ch] (py_split [ch] p) = p"
proof (induction p)
  case Nil
  show ?case by simp
next
  case (Cons x p)
  obtain w ws where ws: "py_split [ch] p = w # ws"
    using py_split_not_Nil [of "[ch]" p] by (cases "py_split [ch] p") auto
  show ?case
  proof (cases "x = ch")
    case True
    then show ?thesis using Cons ws by simp
  next
    case False
    then show ?thesis using Cons ws by (cases ws) auto
  qed
qed

lemma py_split_char_none: "ch \<notin> set c \<Longrightarrow> py_split [ch] c = [c]"
  by (induction c) auto

lemma py_split_snoc_char:
  "ch \<notin> set c \<Longrightarrow> py_split [ch] (p @ ch # c) = py_split [ch] p @ [c]"
proof (induction p)
  case Nil
  then show ?case by (simp add: py_split_char_none)
next
  case (Cons x p)
  obtain w ws where ws: "py_split [ch] p = w # ws"
    using py_split_not_Nil [of "[ch]" p] by (cases "py_split [ch] p") auto
  show ?case using Cons ws by auto
qed

lemma strip_last_component:
  "ch \<notin> set c \<Longrightarrow> py_join [ch] (butlast (py_split [ch] (p @ ch # c))) = p"
  by (simp add: py_split_snoc_char py_join_split_char)

text \<open>
  A text matching one of the three alternatives has the length the pattern fixes, starts
  with a dot and has no other dot.
\<close>

lemma set_drop_split: "set (drop a t) = set (take k (drop a t)) \<union> set (drop (k + a) t)"
  by (metis append_take_drop_id drop_drop set_append)

lemma dot_not_hex: "\<not> is_hex CHR ''.''"
  by (simp add: is_hex_def)

lemma hex_run_no_dot: "hex_run n u \<Longrightarrow> CHR ''.'' \<notin> set u"
  unfolding hex_run_def list_all_iff using dot_not_hex by blast

lemma hex4_dash_no_dot: "hex4_dash u \<Longrightarrow> CHR ''.'' \<notin> set u"
proof -
  assume h: "hex4_dash u"
  have "set u = set (take 4 u) \<union> set (drop 4 u)"
    using set_drop_split [of 0 u 4] by simp
  moreover from h have "CHR ''.'' \<notin> set (take 4 u)"
    unfolding hex4_dash_def by (blast dest: hex_run_no_dot)
  moreover from h have "CHR ''.'' \<notin> set (drop 4 u)"
    unfolding hex4_dash_def by simp
  ultimately show ?thesis by blast
qed

lemma tok_byhost_shape: "tok_byhost t \<Longrightarrow> length t = 7 \<and> (\<exists>c. t = CHR ''.'' # c \<and> CHR ''.'' \<notin> set c)"
  by (simp add: tok_byhost_def)

lemma take1_dot: "take 1 t = ''.'' \<Longrightarrow> \<exists>c. t = CHR ''.'' # c"
  by (cases t) auto


lemma tok_mac_shape: "tok_mac t \<Longrightarrow> length t = 13 \<and> (\<exists>c. t = CHR ''.'' # c \<and> CHR ''.'' \<notin> set c)"
proof -
  assume h: "tok_mac t"
  then obtain c where t: "t = CHR ''.'' # c"
    unfolding tok_mac_def by (blast dest: take1_dot)
  from h have r: "hex_run 12 c" by (simp add: tok_mac_def t)
  then have "length c = 12" unfolding hex_run_def by blast
  then have len: "length t = 13" by (simp add: t)
  from r have "CHR ''.'' \<notin> set c" by (rule hex_run_no_dot)
  with len show ?thesis by (simp add: t)
qed

lemma tok_uuid_shape: "tok_uuid t \<Longrightarrow> length t = 37 \<and> (\<exists>c. t = CHR ''.'' # c \<and> CHR ''.'' \<notin> set c)"
proof -
  assume h: "tok_uuid t"
  then obtain c where t: "t = CHR ''.'' # c"
    unfolding tok_uuid_def by (blast dest: take1_dot)
  from h have "hex_run 12 (drop 25 t)" unfolding tok_uuid_def by blast
  then have "length (drop 25 t) = 12" unfolding hex_run_def by blast
  then have len: "length t = 37" by simp
  have e1: "set (drop 1 t) = set (take 8 (drop 1 t)) \<union> set (drop 9 t)"
    using set_drop_split [of 1 t 8] by simp
  have e2: "set (drop 9 t) = set (take 1 (drop 9 t)) \<union> set (drop 10 t)"
    using set_drop_split [of 9 t 1] by simp
  have e3: "set (drop 10 t) = set (take 5 (drop 10 t)) \<union> set (drop 15 t)"
    using set_drop_split [of 10 t 5] by simp
  have e4: "set (drop 15 t) = set (take 5 (drop 15 t)) \<union> set (drop 20 t)"
    using set_drop_split [of 15 t 5] by simp
  have e5: "set (drop 20 t) = set (take 5 (drop 20 t)) \<union> set (drop 25 t)"
    using set_drop_split [of 20 t 5] by simp
  from h have p1: "CHR ''.'' \<notin> set (take 8 (drop 1 t))"
    unfolding tok_uuid_def by (blast dest: hex_run_no_dot)
  from h have "take 1 (drop 9 t) = ''-''" unfolding tok_uuid_def by blast
  then have p2: "CHR ''.'' \<notin> set (take 1 (drop 9 t))" by simp
  from h have p3: "CHR ''.'' \<notin> set (take 5 (drop 10 t))"
    unfolding tok_uuid_def by (blast dest: hex4_dash_no_dot)
  from h have p4: "CHR ''.'' \<notin> set (take 5 (drop 15 t))"
    unfolding tok_uuid_def by (blast dest: hex4_dash_no_dot)
  from h have p5: "CHR ''.'' \<notin> set (take 5 (drop 20 t))"
    unfolding tok_uuid_def by (blast dest: hex4_dash_no_dot)
  from h have p6: "CHR ''.'' \<notin> set (drop 25 t)"
    unfolding tok_uuid_def by (blast dest: hex_run_no_dot)
  have "CHR ''.'' \<notin> set (drop 1 t)"
    unfolding e1 e2 e3 e4 e5 using p1 p2 p3 p4 p5 p6 by simp
  then have "CHR ''.'' \<notin> set c" by (simp add: t)
  with len show ?thesis by (simp add: t)
qed

text \<open>
  The search succeeds exactly when the name, or the name without a final newline, ends in
  a text matching one of the alternatives. The name then ends in a dot and a component
  without a dot, and the domain returned is what stands before that dot.
\<close>

lemma ends_with_tok_iff:
  "ends_with_tok k tok s \<longleftrightarrow> (\<exists>t. suffix t s \<and> length t = k \<and> tok t)"
proof
  assume "ends_with_tok k tok s"
  then have "k \<le> length s" "tok (drop (length s - k) s)"
    by (simp_all add: ends_with_tok_def)
  moreover have "suffix (drop (length s - k) s) s"
    by (rule suffix_drop)
  moreover from \<open>k \<le> length s\<close> have "length (drop (length s - k) s) = k"
    by simp
  ultimately show "\<exists>t. suffix t s \<and> length t = k \<and> tok t" by blast
next
  assume "\<exists>t. suffix t s \<and> length t = k \<and> tok t"
  then obtain p t where "s = p @ t" "length t = k" "tok t"
    by (auto simp: suffix_def)
  then show "ends_with_tok k tok s"
    by (simp add: ends_with_tok_def)
qed

lemma tok_dollar_iff:
  "tok_dollar k tok s \<longleftrightarrow>
     (\<exists>t. (suffix t s \<or> suffix (t @ [CHR 0x0A]) s) \<and> length t = k \<and> tok t)"
proof -
  have "(s \<noteq> [] \<and> last s = CHR 0x0A \<and> (\<exists>t. suffix t (butlast s) \<and> length t = k \<and> tok t)) \<longleftrightarrow>
      (\<exists>t. suffix (t @ [CHR 0x0A]) s \<and> length t = k \<and> tok t)"
  proof
    assume a: "s \<noteq> [] \<and> last s = CHR 0x0A \<and> (\<exists>t. suffix t (butlast s) \<and> length t = k \<and> tok t)"
    then obtain t where t: "suffix t (butlast s)" "length t = k" "tok t" by blast
    from a have "s = butlast s @ [CHR 0x0A]" by (metis append_butlast_last_id)
    moreover from t(1) obtain p where "butlast s = p @ t" by (auto simp: suffix_def)
    ultimately have "s = p @ (t @ [CHR 0x0A])" by simp
    then have "suffix (t @ [CHR 0x0A]) s" unfolding suffix_def by blast
    with t show "\<exists>t. suffix (t @ [CHR 0x0A]) s \<and> length t = k \<and> tok t" by blast
  next
    assume "\<exists>t. suffix (t @ [CHR 0x0A]) s \<and> length t = k \<and> tok t"
    then obtain p t where "s = p @ t @ [CHR 0x0A]" "length t = k" "tok t"
      by (auto simp: suffix_def)
    then show "s \<noteq> [] \<and> last s = CHR 0x0A \<and> (\<exists>t. suffix t (butlast s) \<and> length t = k \<and> tok t)"
      by (auto simp: butlast_append suffix_def)
  qed
  then show ?thesis
    unfolding tok_dollar_def ends_with_tok_iff by blast
qed

lemma byhost_search_iff:
  "byhost_search s \<longleftrightarrow>
     (\<exists>t. (suffix t s \<or> suffix (t @ [CHR 0x0A]) s) \<and> (tok_byhost t \<or> tok_mac t \<or> tok_uuid t))"
  unfolding byhost_search_def tok_dollar_iff
  using tok_byhost_shape tok_mac_shape tok_uuid_shape by blast

lemma byhost_search_last_component:
  assumes "byhost_search s"
  shows "\<exists>p c. s = p @ CHR ''.'' # c \<and> CHR ''.'' \<notin> set c"
proof -
  from assms obtain t where t: "suffix t s \<or> suffix (t @ [CHR 0x0A]) s"
      "tok_byhost t \<or> tok_mac t \<or> tok_uuid t"
    unfolding byhost_search_iff by blast
  from t(2) obtain c where c: "t = CHR ''.'' # c" "CHR ''.'' \<notin> set c"
    using tok_byhost_shape tok_mac_shape tok_uuid_shape by blast
  from t(1) show ?thesis
  proof
    assume "suffix t s"
    then obtain p where "s = p @ CHR ''.'' # c" by (auto simp: suffix_def c)
    with c show ?thesis by blast
  next
    assume "suffix (t @ [CHR 0x0A]) s"
    then obtain p where "s = p @ CHR ''.'' # (c @ [CHR 0x0A])" by (auto simp: suffix_def c)
    moreover from c have "CHR ''.'' \<notin> set (c @ [CHR 0x0A])" by simp
    ultimately show ?thesis by blast
  qed
qed

lemma getDomainFromPlist_general:
  "getDomainFromPlist path =
     \<lparr>is_byhost = byhost_search (plist_file_name path),
      name = (if byhost_search (plist_file_name path)
              then py_join ''.'' (butlast (py_split ''.'' (plist_file_name path)))
              else plist_file_name path)\<rparr>"
  by (simp add: getDomainFromPlist_def Let_def)

lemma getDomainFromPlist_byhost_name:
  assumes "is_byhost (getDomainFromPlist path)"
  shows "\<exists>c. plist_file_name path = name (getDomainFromPlist path) @ CHR ''.'' # c \<and>
     CHR ''.'' \<notin> set c"
proof -
  from assms have b: "byhost_search (plist_file_name path)"
    by (simp add: getDomainFromPlist_general)
  then obtain p c where pc: "plist_file_name path = p @ CHR ''.'' # c" "CHR ''.'' \<notin> set c"
    using byhost_search_last_component by blast
  then have "name (getDomainFromPlist path) = p"
    using b by (simp add: getDomainFromPlist_general strip_last_component)
  with pc show ?thesis by blast
qed

text \<open>
  On a name that does not end in a newline the result is ByHost exactly when the name ends
  in a text matching one of the three alternatives.
\<close>

lemma getDomainFromPlist_byhost_iff:
  assumes "plist_file_name path = [] \<or> last (plist_file_name path) \<noteq> CHR 0x0A"
  shows "is_byhost (getDomainFromPlist path) \<longleftrightarrow>
     (\<exists>t. suffix t (plist_file_name path) \<and> (tok_byhost t \<or> tok_mac t \<or> tok_uuid t))"
proof -
  have "\<not> suffix (t @ [CHR 0x0A]) (plist_file_name path)" for t
  proof
    assume "suffix (t @ [CHR 0x0A]) (plist_file_name path)"
    then obtain p where "plist_file_name path = p @ t @ [CHR 0x0A]"
      by (auto simp: suffix_def)
    then have "plist_file_name path \<noteq> [] \<and> last (plist_file_name path) = CHR 0x0A"
      by simp
    with assms show False by blast
  qed
  then show ?thesis
    by (simp add: getDomainFromPlist_general byhost_search_iff)
qed

text \<open>
  The base name has no slash; the file name kept is a prefix of it, and inference applied
  to a name it returned as not ByHost returns that name again.
\<close>

lemma basename_plain: "CHR ''/'' \<notin> set n \<Longrightarrow> basename n = n"
proof -
  assume "CHR ''/'' \<notin> set n"
  then have "takeWhile (\<lambda>c. c \<noteq> CHR ''/'') (rev n) = rev n"
    by (intro takeWhile_eq_all_conv [THEN iffD2]) auto
  then show ?thesis unfolding basename_def by (simp only: rev_rev_ident)
qed

lemma basename_dir: "CHR ''/'' \<notin> set n \<Longrightarrow> basename (d @ CHR ''/'' # n) = n"
proof -
  assume n: "CHR ''/'' \<notin> set n"
  have "takeWhile (\<lambda>c. c \<noteq> CHR ''/'') (rev n @ CHR ''/'' # rev d) =
      takeWhile (\<lambda>c. c \<noteq> CHR ''/'') (rev n)"
    by (rule takeWhile_tail) simp
  then have "basename (d @ CHR ''/'' # n) = basename n"
    unfolding basename_def by (simp only: rev_append rev.simps append_assoc append_Cons append_Nil)
  with n show ?thesis by (simp add: basename_plain)
qed

lemma basename_no_slash: "CHR ''/'' \<notin> set (basename p)"
  unfolding basename_def set_rev by (metis (mono_tags, lifting) set_takeWhileD)

lemma plist_file_name_hd: "plist_file_name p = hd (py_split ''.plist'' (basename p))"
  by (simp add: plist_file_name_def split: list.splits) (simp add: py_split_not_Nil)

lemma hd_py_split_prefix: "prefix (hd (py_split sep s)) s"
proof (induction sep s rule: py_split.induct)
  case (1 sep)
  show ?case by simp
next
  case (2 sep c cs)
  show ?case
  proof (cases "sep \<noteq> [] \<and> prefix sep (c # cs)")
    case True
    then show ?thesis by simp
  next
    case False
    obtain w ws where ws: "py_split sep cs = w # ws"
      using py_split_not_Nil [of sep cs] by (cases "py_split sep cs") auto
    from False 2(2) ws have "prefix w cs" by auto
    with False ws show ?thesis by auto
  qed
qed

lemma hd_py_split_idem: "hd (py_split sep (hd (py_split sep s))) = hd (py_split sep s)"
proof (induction sep s rule: py_split.induct)
  case (1 sep)
  show ?case by simp
next
  case (2 sep c cs)
  show ?case
  proof (cases "sep \<noteq> [] \<and> prefix sep (c # cs)")
    case True
    then show ?thesis by simp
  next
    case False
    obtain w ws where ws: "py_split sep cs = w # ws"
      using py_split_not_Nil [of sep cs] by (cases "py_split sep cs") auto
    obtain v vs where vs: "py_split sep w = v # vs"
      using py_split_not_Nil [of sep w] by (cases "py_split sep w") auto
    from False 2(2) ws vs have ih: "v = w" by auto
    have "prefix w cs" using hd_py_split_prefix [of sep cs] ws by simp
    then have "prefix (c # w) (c # cs)" by simp
    with False have "\<not> (sep \<noteq> [] \<and> prefix sep (c # w))"
      using prefix_order.trans by blast
    with False ws vs ih show ?thesis by auto
  qed
qed

lemma plist_file_name_idem: "plist_file_name (plist_file_name p) = plist_file_name p"
proof -
  have "prefix (plist_file_name p) (basename p)"
    unfolding plist_file_name_hd by (rule hd_py_split_prefix)
  then have "CHR ''/'' \<notin> set (plist_file_name p)"
    using basename_no_slash [of p] set_mono_prefix by blast
  then have "basename (plist_file_name p) = plist_file_name p"
    by (rule basename_plain)
  then show ?thesis
    by (simp add: plist_file_name_hd hd_py_split_idem)
qed

lemma getDomainFromPlist_idem:
  assumes "\<not> is_byhost (getDomainFromPlist p)"
  shows "getDomainFromPlist (name (getDomainFromPlist p)) = getDomainFromPlist p"
  using assms by (simp add: getDomainFromPlist_general plist_file_name_idem)

text \<open>
  Line 150 keeps the base name up to the first occurrence of \<^verbatim>\<open>.plist\<close>.
\<close>

lemma py_split_first:
  assumes "sep \<noteq> []"
    and "\<forall>i < length p. \<not> prefix sep (drop i (p @ sep @ q))"
  shows "py_split sep (p @ sep @ q) = p # py_split sep q"
  using assms(2)
proof (induction p)
  case Nil
  from assms(1) obtain c cs where c: "sep @ q = c # cs"
    by (cases sep) auto
  have "prefix sep (c # cs)"
    unfolding c [symmetric] by simp
  with assms(1) have "py_split sep (c # cs) = [] # py_split sep (drop (length sep) (c # cs))"
    by simp
  then have "py_split sep (sep @ q) = [] # py_split sep (drop (length sep) (sep @ q))"
    unfolding c [symmetric] .
  then show ?case by simp
next
  case (Cons x p)
  from Cons.prems have "\<not> prefix sep (drop 0 ((x # p) @ sep @ q))"
    by (metis length_greater_0_conv list.distinct(1))
  then have no: "\<not> prefix sep (x # (p @ sep @ q))" by simp
  have "\<forall>i < length p. \<not> prefix sep (drop i (p @ sep @ q))"
  proof (intro allI impI)
    fix i assume "i < length p"
    then have "Suc i < length (x # p)" by simp
    with Cons.prems have "\<not> prefix sep (drop (Suc i) ((x # p) @ sep @ q))" by blast
    then show "\<not> prefix sep (drop i (p @ sep @ q))" by simp
  qed
  then have "py_split sep (p @ sep @ q) = p # py_split sep q" by (rule Cons.IH)
  with no show ?case by simp
qed

lemma plist_file_name_first:
  assumes "basename path = p @ ''.plist'' @ q"
    and "\<forall>i < length p. \<not> prefix ''.plist'' (drop i (p @ ''.plist'' @ q))"
  shows "plist_file_name path = p"
proof -
  have "py_split ''.plist'' (p @ ''.plist'' @ q) = p # py_split ''.plist'' q"
    using assms(2) by (intro py_split_first) simp_all
  then show ?thesis
    unfolding plist_file_name_def assms(1) by simp
qed

text \<open>
  The examples of the specification: a plain name with or without directory and extension,
  and the three ByHost shapes.
\<close>

lemma getDomainFromPlist_examples:
  "getDomainFromPlist ''com.apple.finder.plist'' =
     \<lparr>is_byhost = False, name = ''com.apple.finder''\<rparr>"
  "getDomainFromPlist ''/Library/Preferences/com.apple.finder.plist'' =
     \<lparr>is_byhost = False, name = ''com.apple.finder''\<rparr>"
  "getDomainFromPlist ''com.apple.finder'' =
     \<lparr>is_byhost = False, name = ''com.apple.finder''\<rparr>"
  "getDomainFromPlist ''com.apple.x.001122334455.plist'' =
     \<lparr>is_byhost = True, name = ''com.apple.x''\<rparr>"
  "getDomainFromPlist ''com.apple.x.ByHost.plist'' =
     \<lparr>is_byhost = True, name = ''com.apple.x''\<rparr>"
  "getDomainFromPlist ''com.apple.x.12345678-1234-1234-1234-123456789012.plist'' =
     \<lparr>is_byhost = True, name = ''com.apple.x''\<rparr>"
  by (simp_all add: getDomain_defs)

text \<open>
  C2 says that only the final occurrence of \<^verbatim>\<open>.plist\<close> is stripped, and the docstring of
  \<^verbatim>\<open>getDomainFromPlist\<close> that the ending \<^verbatim>\<open>.plist\<close> is. Line 150 takes the first piece
  of \<^verbatim>\<open>split('.plist')\<close>, which cuts the base name at the first occurrence of
  \<^verbatim>\<open>.plist\<close>, wherever it stands: the file \<^verbatim>\<open>com.example.plistviewer.plist\<close> gets the
  domain \<^verbatim>\<open>com.example\<close>, not \<^verbatim>\<open>com.example.plistviewer\<close>, and
  \<^verbatim>\<open>com.apple.finder.plist.plist\<close> the domain \<^verbatim>\<open>com.apple.finder\<close>, not
  \<^verbatim>\<open>com.apple.finder.plist\<close>.
\<close>

theorem getDomainFromPlist_cuts_at_first_plist:
  "getDomainFromPlist ''com.example.plistviewer.plist'' =
     \<lparr>is_byhost = False, name = ''com.example''\<rparr> \<and>
   getDomainFromPlist ''com.apple.finder.plist.plist'' =
     \<lparr>is_byhost = False, name = ''com.apple.finder''\<rparr>"
  by (simp add: getDomain_defs)

text \<open>
  C5 says that a name is taken as ByHost exactly when it ends in one of the three suffixes,
  and the comment of line 147 that the pattern matches a domain ending in them. The
  pattern anchors with \<^verbatim>\<open>$\<close>, which also matches before a final newline: for the file
  name \<^verbatim>\<open>com.apple.x.ByHost\\n.plist\<close> the stripped name is \<^verbatim>\<open>com.apple.x.ByHost\\n\<close>,
  which does not end in \<^verbatim>\<open>.ByHost\<close>, and yet the result is ByHost with the domain
  \<^verbatim>\<open>com.apple.x\<close>.
\<close>

theorem getDomainFromPlist_byhost_before_newline:
  "plist_file_name (''com.apple.x.ByHost'' @ [CHR 0x0A] @ ''.plist'') =
     ''com.apple.x.ByHost'' @ [CHR 0x0A] \<and>
   \<not> suffix ''.ByHost'' (''com.apple.x.ByHost'' @ [CHR 0x0A]) \<and>
   getDomainFromPlist (''com.apple.x.ByHost'' @ [CHR 0x0A] @ ''.plist'') =
     \<lparr>is_byhost = True, name = ''com.apple.x''\<rparr>"
  by (simp add: getDomain_defs suffix_def)

subsection \<open>One plist file, end to end\<close>

lemma getDomain_dock:
  "getDomainFromPlist ''com.apple.dock.plist'' = \<lparr>is_byhost = False, name = ''com.apple.dock''\<rparr>"
  by (simp add: getDomain_defs)

text \<open>A line without a newline in it is the first piece of a split at newlines.\<close>

lemma py_split_line:
  "CHR 0x0A \<notin> set a \<Longrightarrow>
     py_split [CHR 0x0A] (a @ CHR 0x0A # rest) = a # py_split [CHR 0x0A] rest"
  by (induction a) auto

text \<open>\<^verbatim>\<open>finalizeAndSave\<close> only appends to the description.\<close>

lemma finalize_description:
  "\<exists>tail. PayloadDescription (data (fst (finalizeAndSave self p))) =
     PayloadDescription (data self) @ tail"
  by (simp add: finalizeAndSave_def Let_def split: option.splits)

lemma dock_description:
  "PayloadDescription (data (addPayload
      (PayloadDict_init identifier uuid removal_allowed organization displayname u0 g)
      [(''com.apple.dock'', v)] u)) =
     ''Included custom settings:'' @ CHR 0x0A # ''com.apple.dock'' @ CHR 0x0A # []"
  by (simp add: addPayload_def keys_def PayloadDict_init_def Let_def)

text \<open>
  The mode Always never reaches line 114: the method returns, whether \<^verbatim>\<open>NSDate\<close> is bound
  or not.
\<close>

lemma add_always:
  "addPayloadFromPlistContents self plist_dict domain ''Always'' byhost now new_uuid =
     Inr (addPayload self
       [(if byhost then domain @ ''.ByHost'' else domain,
         PDict [(''Forced'', PArray [PDict [(''mcx_preference_settings'', plist_dict)]])])]
       new_uuid)"
  by (cases now) (simp_all add: addPayloadFromPlistContents_def plist_payload_dict_eq)

lemma add_plists_one:
  assumes "path_exists env p" and "readPlist env p = Some source_data"
  shows "add_plists env ''Always'' n pd [p] =
     Inr (addPayload pd
       [(if is_byhost (getDomainFromPlist p) then name (getDomainFromPlist p) @ ''.ByHost''
         else name (getDomainFromPlist p),
         PDict [(''Forced'', PArray [PDict [(''mcx_preference_settings'', source_data)]])])]
       (uuid_at env n))"
  using assms by (simp add: Let_def add_always)

lemma main_plists_one:
  assumes "path_exists env p" and "readPlist env p = Some source_data"
  shows "main_plists env identifier uuid removal_allowed organization displayname ''Always'' [p]
       output_file =
     Inr (output_file, data (fst (finalizeAndSave
       (addPayload
          (PayloadDict_init identifier uuid removal_allowed organization displayname
             (uuid_at env 0) (found_gitrev env))
          [(if is_byhost (getDomainFromPlist p) then name (getDomainFromPlist p) @ ''.ByHost''
            else name (getDomainFromPlist p),
            PDict [(''Forced'', PArray [PDict [(''mcx_preference_settings'', source_data)]])])]
          (uuid_at env (if uuid_given uuid then 0 else 1)))
       output_file)))"
  unfolding main_plists_def Let_def add_plists_one [OF assms]
  by (simp add: finalize_written)

text \<open>
  C7. With the single plist file \<^verbatim>\<open>com.apple.dock.plist\<close> that exists and decodes to
  \<^verbatim>\<open>{"tilesize": 48}\<close>, mode \<^verbatim>\<open>Always\<close> and identifier \<^verbatim>\<open>com.example.test\<close>, the
  run ends without error and writes, to the output path, a document whose
  \<^verbatim>\<open>PayloadIdentifier\<close> is \<^verbatim>\<open>com.example.test\<close>, whose payload array has exactly one
  entry with the content
  \<^verbatim>\<open>{"com.apple.dock": {"Forced": [{"mcx_preference_settings": {"tilesize": 48}}]}}\<close>,
  and whose description has the line \<^verbatim>\<open>com.apple.dock\<close>; this for every UUID argument,
  removal flag, organization, display name, output path, generated UUIDs, clock and
  revision found, and whether or not \<^verbatim>\<open>FoundationPlist\<close> was imported.
\<close>

theorem main_dock_plist:
  assumes "path_exists env ''com.apple.dock.plist''"
    and "readPlist env ''com.apple.dock.plist'' = Some (PDict [(''tilesize'', PInteger 48)])"
  shows "\<exists>doc.
    main_plists env ''com.example.test'' uuid removal_allowed organization displayname
      ''Always'' [''com.apple.dock.plist''] output_file = Inr (output_file, doc) \<and>
    profile.PayloadIdentifier doc = ''com.example.test'' \<and>
    map payload.PayloadContent (profile.PayloadContent doc) =
      [[(''com.apple.dock'',
         PDict [(''Forced'',
           PArray [PDict [(''mcx_preference_settings'', PDict [(''tilesize'', PInteger 48)])]])])]] \<and>
    ''com.apple.dock'' \<in> set (py_split [CHR 0x0A] (PayloadDescription doc))"
proof -
  define pd0 where "pd0 = PayloadDict_init ''com.example.test'' uuid removal_allowed
      organization displayname (uuid_at env 0) (found_gitrev env)"
  define n where "n = (if uuid_given uuid then 0 else 1 :: nat)"
  define pd1 where "pd1 = addPayload pd0
      [(''com.apple.dock'',
        PDict [(''Forced'',
          PArray [PDict [(''mcx_preference_settings'', PDict [(''tilesize'', PInteger 48)])]])])]
      (uuid_at env n)"
  define doc where "doc = data (fst (finalizeAndSave pd1 output_file))"
  have run: "main_plists env ''com.example.test'' uuid removal_allowed organization displayname
      ''Always'' [''com.apple.dock.plist''] output_file = Inr (output_file, doc)"
    unfolding main_plists_one [OF assms] getDomain_dock doc_def pd1_def pd0_def n_def
    by simp
  have ident: "profile.PayloadIdentifier doc = ''com.example.test''"
    unfolding doc_def pd1_def pd0_def finalize_fixed addPayload_fixed
    by (simp add: PayloadDict_init_def)
  have content: "map payload.PayloadContent (profile.PayloadContent doc) =
      [[(''com.apple.dock'',
         PDict [(''Forced'',
           PArray [PDict [(''mcx_preference_settings'', PDict [(''tilesize'', PInteger 48)])]])])]]"
    unfolding doc_def pd1_def pd0_def finalize_fixed addPayload_content init_content
    by simp
  have d1: "PayloadDescription (data pd1) =
      ''Included custom settings:'' @ CHR 0x0A # ''com.apple.dock'' @ CHR 0x0A # []"
    unfolding pd1_def pd0_def by (rule dock_description)
  obtain tail where t: "PayloadDescription doc = PayloadDescription (data pd1) @ tail"
    unfolding doc_def using finalize_description by blast
  have desc: "PayloadDescription doc =
      ''Included custom settings:'' @ CHR 0x0A # ''com.apple.dock'' @ CHR 0x0A # tail"
    unfolding t d1 by simp
  have nl: "CHR 0x0A \<notin> set ''Included custom settings:''" "CHR 0x0A \<notin> set ''com.apple.dock''"
    by simp_all
  have "py_split [CHR 0x0A] (PayloadDescription doc) =
      ''Included custom settings:'' # ''com.apple.dock'' # py_split [CHR 0x0A] tail"
    unfolding desc by (simp only: py_split_line [OF nl(1)] py_split_line [OF nl(2)])
  then have line: "''com.apple.dock'' \<in> set (py_split [CHR 0x0A] (PayloadDescription doc))"
    by (simp only: list.set insert_iff simp_thms)
  show ?thesis
    by (rule exI [of _ doc]) (intro conjI run ident content line)
qed

theorem main_dock_plist_witness:
  "path_exists
     \<lparr>foundation = False,
      path_exists = (\<lambda>p. p = ''com.apple.dock.plist''),
      readPlist = (\<lambda>p. if p = ''com.apple.dock.plist''
                        then Some (PDict [(''tilesize'', PInteger 48)]) else None),
      uuid_at = (\<lambda>k. if k = 0 then ''D'' else ''E''),
      clock_at = (\<lambda>k. 0),
      found_gitrev = Some ''0123456789abcdef''\<rparr> ''com.apple.dock.plist'' \<and>
   readPlist
     \<lparr>foundation = False,
      path_exists = (\<lambda>p. p = ''com.apple.dock.plist''),
      readPlist = (\<lambda>p. if p = ''com.apple.dock.plist''
                        then Some (PDict [(''tilesize'', PInteger 48)]) else None),
      uuid_at = (\<lambda>k. if k = 0 then ''D'' else ''E''),
      clock_at = (\<lambda>k. 0),
      found_gitrev = Some ''0123456789abcdef''\<rparr> ''com.apple.dock.plist'' =
     Some (PDict [(''tilesize'', PInteger 48)]) \<and>
   (\<exists>doc.
      main_plists
        \<lparr>foundation = False,
      path_exists = (\<lambda>p. p = ''com.apple.dock.plist''),
         readPlist = (\<lambda>p. if p = ''com.apple.dock.plist''
                           then Some (PDict [(''tilesize'', PInteger 48)]) else None),
         uuid_at = (\<lambda>k. if k = 0 then ''D'' else ''E''),
         clock_at = (\<lambda>k. 0),
         found_gitrev = Some ''0123456789abcdef''\<rparr>
        ''com.example.test'' None False [] [] ''Always'' [''com.apple.dock.plist'']
        ''com.example.test.mobileconfig'' = Inr (''com.example.test.mobileconfig'', doc) \<and>
      profile.PayloadIdentifier doc = ''com.example.test'' \<and>
      map payload.PayloadContent (profile.PayloadContent doc) =
        [[(''com.apple.dock'',
           PDict [(''Forced'',
             PArray [PDict [(''mcx_preference_settings'',
               PDict [(''tilesize'', PInteger 48)])]])])]] \<and>
      ''com.apple.dock'' \<in> set (py_split [CHR 0x0A] (PayloadDescription doc)))"
proof -
  let ?env = "\<lparr>foundation = False,
      path_exists = (\<lambda>p. p = ''com.apple.dock.plist''),
      readPlist = (\<lambda>p. if p = ''com.apple.dock.plist''
                        then Some (PDict [(''tilesize'', PInteger 48)]) else None),
      uuid_at = (\<lambda>k::nat. if k = 0 then ''D'' else ''E''),
      clock_at = (\<lambda>k::nat. 0::int),
      found_gitrev = Some ''0123456789abcdef''\<rparr>"
  have h1: "path_exists ?env ''com.apple.dock.plist''"
    by simp
  have h2: "readPlist ?env ''com.apple.dock.plist'' = Some (PDict [(''tilesize'', PInteger 48)])"
    by simp
  show ?thesis
    by (intro conjI h1 h2 main_dock_plist [OF h1 h2])
qed

end
